theory Spec2Isabelle
  imports Main
begin

section \<open>Staff task-reporting portal: the route handlers and the session token\<close>

text \<open>
  The development embeds the route handlers of the portal (reports, tasks, staff) and the
  session token functions as HOL functions over an explicit data store.

  Conventions.
  \<^item> An instant (a JavaScript \<open>Date\<close>) is its time value, the number of milliseconds
    since the epoch, an \<open>int\<close>. The host's time zone is a parameter: the offset of local
    time in force at an instant, and the offset by which a local time is read back as an
    instant. The local-time methods of \<open>Date\<close> follow their ECMAScript definitions.
  \<^item> \<open>new Date(s)\<close> and \<open>parseInt(s)\<close> are parameters \<open>newDate\<close> and \<open>parseInt\<close> of type
    \<open>string \<Rightarrow> int option\<close>; \<open>None\<close> stands for an Invalid Date and for \<open>NaN\<close>. The data
    layer rejects both, which the handlers' \<open>catch\<close> turns into a 500 response.
  \<^item> A table is the list of its rows, in the order the data store scans them. A query
    without \<open>orderBy\<close> keeps that order.
  \<^item> A handler takes the session that \<open>getSession()\<close> returned, the request and the store,
    and returns the response with the store afterwards. A response is \<open>Inl\<close> of the
    status and \<open>error\<close> message, or \<open>Inr\<close> of the status and the JSON body.
  \<^item> A request body is the object its JSON text denotes, each field a string or absent; a
    query parameter is a string or absent. A body that is not such an object makes the
    handler throw before it reads the store, and is left out.
\<close>

subsection \<open>Instants, the time zone and calendar days\<close>

definition hourMs :: int where
  "hourMs = 3600000"

definition dayMs :: int where
  "dayMs = 86400000"

text \<open>
  The time zone of the host: \<open>offsetAt\<close> is \<open>LocalTZA(t, true)\<close>, the offset of local time
  from UTC in force at the instant \<open>t\<close>; \<open>offsetOfLocal\<close> is \<open>LocalTZA(t, false)\<close>, the
  offset by which the local time value \<open>t\<close> is read (for a local time that a change of
  offset repeats or skips, the offset before the change).
\<close>

record zone =
  offsetAt :: "int \<Rightarrow> int"
  offsetOfLocal :: "int \<Rightarrow> int"

definition LocalTime :: "zone \<Rightarrow> int \<Rightarrow> int" where
  "LocalTime tz t = t + offsetAt tz t"

definition UTC :: "zone \<Rightarrow> int \<Rightarrow> int" where
  "UTC tz t = t - offsetOfLocal tz t"

definition Day :: "int \<Rightarrow> int" where
  "Day t = t div dayMs"

definition TimeWithinDay :: "int \<Rightarrow> int" where
  "TimeWithinDay t = t mod dayMs"

definition HourFromTime :: "int \<Rightarrow> int" where
  "HourFromTime t = (t div hourMs) mod 24"

definition MinFromTime :: "int \<Rightarrow> int" where
  "MinFromTime t = (t div 60000) mod 60"

definition SecFromTime :: "int \<Rightarrow> int" where
  "SecFromTime t = (t div 1000) mod 60"

definition msFromTime :: "int \<Rightarrow> int" where
  "msFromTime t = t mod 1000"

definition MakeTime :: "int \<Rightarrow> int \<Rightarrow> int \<Rightarrow> int \<Rightarrow> int" where
  "MakeTime h m s ms = h * hourMs + m * 60000 + s * 1000 + ms"

definition MakeDate :: "int \<Rightarrow> int \<Rightarrow> int" where
  "MakeDate day time = day * dayMs + time"

text \<open>
  \<open>d.setHours(h, m, s, ms)\<close>: the local calendar day of \<open>d\<close> with the given time of day,
  read back as an instant.
\<close>

definition setHours :: "zone \<Rightarrow> int \<Rightarrow> int \<Rightarrow> int \<Rightarrow> int \<Rightarrow> int \<Rightarrow> int" where
  "setHours tz t h m s ms = UTC tz (MakeDate (Day (LocalTime tz t)) (MakeTime h m s ms))"

definition getHours :: "zone \<Rightarrow> int \<Rightarrow> int" where
  "getHours tz t = HourFromTime (LocalTime tz t)"

text \<open>
  \<open>d.setHours(h)\<close> with one argument: the local minutes, seconds and milliseconds of \<open>d\<close>
  are kept. An hour of 24 or more runs into the following local days.
\<close>

definition setHour :: "zone \<Rightarrow> int \<Rightarrow> int \<Rightarrow> int" where
  "setHour tz t h =
     (let lt = LocalTime tz t
      in UTC tz (MakeDate (Day lt) (MakeTime h (MinFromTime lt) (SecFromTime lt) (msFromTime lt))))"

text \<open>\<open>d.setDate(d.getDate() + 1)\<close>: the same local time of day on the next local day.\<close>

definition nextDate :: "zone \<Rightarrow> int \<Rightarrow> int" where
  "nextDate tz t =
     (let lt = LocalTime tz t in UTC tz (MakeDate (Day lt + 1) (TimeWithinDay lt)))"

text \<open>The helper \<open>getDateRange\<close> of the reports route, on a parsed date.\<close>

definition getDateRange :: "zone \<Rightarrow> int \<Rightarrow> int \<times> int" where
  "getDateRange tz d = (setHours tz d 0 0 0 0, setHours tz d 23 59 59 999)"

text \<open>
  The deadline of the reports route: \<open>selectedDate\<close> is the end of the selected day, and
  \<open>deadline.setHours(deadline.getHours() + 24)\<close> follows.
\<close>

definition submissionDeadline :: "zone \<Rightarrow> int \<Rightarrow> int" where
  "submissionDeadline tz d =
     (let selectedDate = setHours tz d 23 59 59 999
      in setHour tz selectedDate (getHours tz selectedDate + 24))"

text \<open>The number of the local calendar day an instant falls in.\<close>

definition localDay :: "zone \<Rightarrow> int \<Rightarrow> int" where
  "localDay tz t = Day (LocalTime tz t)"

text \<open>
  The instants from 00:00:00.000 to 23:59:59.999 of the local day with number \<open>k\<close>, and
  its noon.
\<close>

definition dayRange :: "zone \<Rightarrow> int \<Rightarrow> int \<times> int" where
  "dayRange tz k = (UTC tz (MakeDate k (MakeTime 0 0 0 0)), UTC tz (MakeDate k (MakeTime 23 59 59 999)))"

definition noonOf :: "zone \<Rightarrow> int \<Rightarrow> int" where
  "noonOf tz k = UTC tz (MakeDate k (MakeTime 12 0 0 0))"

subsection \<open>The session\<close>

text \<open>
  \<open>expiresAt\<close> is a \<open>Date\<close> object when the session is built and the ISO text of the same
  instant once it has been through JSON.
\<close>

datatype date_claim = DateObj int | IsoString int

record sessionPayload =
  userId :: int
  username :: string
  role :: string
  expiresAt :: date_claim

subsection \<open>The data store\<close>

text \<open>
  The rows of the \<open>Task\<close>, \<open>DailyReport\<close> and \<open>User\<close> tables. The columns of \<open>DailyReport\<close>
  are those of its migration; those of \<open>Task\<close> and \<open>User\<close> are the ones the handlers read
  and write. Fields carry a prefix where two tables share a column name.
\<close>

record task =
  task_id :: int
  task_date :: int
  taskName :: string
  plan :: string
  result :: string
  task_userId :: int
  task_createdAt :: int

record dailyReport =
  report_id :: int
  report_date :: int
  report_userId :: int
  submitted :: bool
  submittedAt :: "int option"
  report_createdAt :: int

record user =
  user_id :: int
  user_username :: string
  password :: string
  user_role :: string
  position :: "string option"
  user_createdAt :: int

text \<open>
  \<open>reportSeq\<close> is the largest id the \<open>DailyReport\<close> table has handed out (its primary key
  is \<open>AUTOINCREMENT\<close>).
\<close>

record store =
  tasks :: "task list"
  reports :: "dailyReport list"
  reportSeq :: int
  users :: "user list"

datatype http_error = HttpError nat string

abbreviation Unauthorized :: http_error where
  "Unauthorized \<equiv> HttpError 401 ''Unauthorized''"

abbreviation DateRequired :: http_error where
  "DateRequired \<equiv> HttpError 400 ''Date is required''"

abbreviation DeadlinePassed :: http_error where
  "DeadlinePassed \<equiv> HttpError 400
     ''Submission deadline passed. Reports can only be submitted within 24 hours after the report date.''"

abbreviation NoTasksToSubmit :: http_error where
  "NoTasksToSubmit \<equiv> HttpError 400 ''No tasks to submit for this date''"

abbreviation ReportNotFound :: http_error where
  "ReportNotFound \<equiv> HttpError 404 ''Report not found''"

text \<open>\<open>!s\<close> on a value that is a string, \<open>null\<close> or \<open>undefined\<close>.\<close>

definition falsy :: "string option \<Rightarrow> bool" where
  "falsy s = (case s of None \<Rightarrow> True | Some v \<Rightarrow> v = [])"

text \<open>A \<open>where\<close> clause \<open>{ gte: start, lte: end }\<close> on a date column.\<close>

definition inRange :: "int \<times> int \<Rightarrow> int \<Rightarrow> bool" where
  "inRange rg t = (fst rg \<le> t \<and> t \<le> snd rg)"

text \<open>
  A zone keeps its calendar days when the instants of each local day are exactly those
  from its 00:00:00.000 to its 23:59:59.999, and its noon is one of them. Every fixed
  offset does (\<open>zone_ok_fixed\<close>), and so does New York, whose offset changes at 02:00 local
  time (\<open>zone_ok_newYork2024\<close>).
\<close>

definition zone_ok :: "zone \<Rightarrow> bool" where
  "zone_ok tz =
     ((\<forall>k t. inRange (dayRange tz k) t = (localDay tz t = k)) \<and>
      (\<forall>k. localDay tz (noonOf tz k) = k))"

subsection \<open>Data-layer operations on the report table\<close>

text \<open>
  \<open>dailyReport.create\<close>: the unique index on \<open>(date, userId)\<close> rejects a second row with the
  same pair (\<open>None\<close>: the call throws); otherwise the row gets the next id.
\<close>

definition dailyReport_create ::
  "int \<Rightarrow> int \<Rightarrow> int \<Rightarrow> int \<Rightarrow> store \<Rightarrow> (dailyReport \<times> store) option" where
  "dailyReport_create clock date uid at st =
     (if list_ex (\<lambda>r. report_date r = date \<and> report_userId r = uid) (reports st) then None
      else
        let row = \<lparr>report_id = reportSeq st + 1, report_date = date, report_userId = uid,
                   submitted = True, submittedAt = Some at, report_createdAt = clock\<rparr>
        in Some (row, st\<lparr>reports := reports st @ [row], reportSeq := reportSeq st + 1\<rparr>))"

text \<open>
  \<open>dailyReport.update\<close> by id with \<open>{ submitted: true, submittedAt }\<close>: \<open>None\<close> when no row
  has the id (the call throws).
\<close>

definition resubmit :: "int \<Rightarrow> dailyReport \<Rightarrow> dailyReport" where
  "resubmit at r = r\<lparr>submitted := True, submittedAt := Some at\<rparr>"

definition dailyReport_update :: "int \<Rightarrow> int \<Rightarrow> store \<Rightarrow> (dailyReport \<times> store) option" where
  "dailyReport_update rid at st =
     (case List.find (\<lambda>r. report_id r = rid) (reports st) of
        None \<Rightarrow> None
      | Some r \<Rightarrow>
          Some (resubmit at r,
                st\<lparr>reports := map (\<lambda>x. if report_id x = rid then resubmit at x else x) (reports st)\<rparr>))"

text \<open>\<open>dailyReport.delete\<close> by id: \<open>None\<close> when no row has the id.\<close>

definition dailyReport_delete :: "int \<Rightarrow> store \<Rightarrow> store option" where
  "dailyReport_delete rid st =
     (if list_ex (\<lambda>r. report_id r = rid) (reports st)
      then Some (st\<lparr>reports := filter (\<lambda>r. report_id r \<noteq> rid) (reports st)\<rparr>)
      else None)"

text \<open>The query both handlers use to look for the caller's report of a day.\<close>

definition findReport :: "int \<Rightarrow> int \<times> int \<Rightarrow> store \<Rightarrow> dailyReport option" where
  "findReport uid rg st =
     List.find (\<lambda>r. report_userId r = uid \<and> inRange rg (report_date r)) (reports st)"

definition countTasks :: "int \<Rightarrow> int \<times> int \<Rightarrow> store \<Rightarrow> nat" where
  "countTasks uid rg st =
     length (filter (\<lambda>t. task_userId t = uid \<and> inRange rg (task_date t)) (tasks st))"

subsection \<open>The reports route\<close>

text \<open>
  \<open>POST /api/reports\<close>. \<open>now\<close> is the clock read for the deadline check, \<open>at\<close> the later
  reading stored as \<open>submittedAt\<close> (and used for the \<open>createdAt\<close> default of a new row).
  With an Invalid Date the comparison \<open>now > deadline\<close> is false and the task count
  throws.
\<close>

definition reports_POST ::
  "zone \<Rightarrow> (string \<Rightarrow> int option) \<Rightarrow> int \<Rightarrow> int \<Rightarrow> 'a sessionPayload_scheme option \<Rightarrow>
   string option \<Rightarrow> store \<Rightarrow> (http_error + nat \<times> dailyReport) \<times> store" where
  "reports_POST tz newDate now at session date st =
     (case session of
        None \<Rightarrow> (Inl Unauthorized, st)
      | Some s \<Rightarrow>
          if falsy date then (Inl DateRequired, st)
          else
            (case newDate (the date) of
               None \<Rightarrow> (Inl (HttpError 500 ''Failed to submit report''), st)
             | Some d \<Rightarrow>
                 let rg = getDateRange tz d;
                     deadline = submissionDeadline tz d
                 in if now > deadline then (Inl DeadlinePassed, st)
                    else
                      let tasksCount = countTasks (userId s) rg st
                      in if tasksCount = 0 then (Inl NoTasksToSubmit, st)
                         else
                           let reportDate = setHours tz d 12 0 0 0
                           in (case findReport (userId s) rg st of
                                 Some existingReport \<Rightarrow>
                                   (case dailyReport_update (report_id existingReport) at st of
                                      None \<Rightarrow> (Inl (HttpError 500 ''Failed to submit report''), st)
                                    | Some (report, st') \<Rightarrow> (Inr (201, report), st'))
                               | None \<Rightarrow>
                                   (case dailyReport_create at reportDate (userId s) at st of
                                      None \<Rightarrow> (Inl (HttpError 500 ''Failed to submit report''), st)
                                    | Some (report, st') \<Rightarrow> (Inr (201, report), st')))))"

text \<open>\<open>DELETE /api/reports?date=...\<close>: withdraw the caller's report of a day.\<close>

definition reports_DELETE ::
  "zone \<Rightarrow> (string \<Rightarrow> int option) \<Rightarrow> 'a sessionPayload_scheme option \<Rightarrow>
   string option \<Rightarrow> store \<Rightarrow> (http_error + nat \<times> string) \<times> store" where
  "reports_DELETE tz newDate session date st =
     (case session of
        None \<Rightarrow> (Inl Unauthorized, st)
      | Some s \<Rightarrow>
          if falsy date then (Inl DateRequired, st)
          else
            (case newDate (the date) of
               None \<Rightarrow> (Inl (HttpError 500 ''Failed to delete report''), st)
             | Some d \<Rightarrow>
                 (case findReport (userId s) (getDateRange tz d) st of
                    None \<Rightarrow> (Inl ReportNotFound, st)
                  | Some report \<Rightarrow>
                      (case dailyReport_delete (report_id report) st of
                         None \<Rightarrow> (Inl (HttpError 500 ''Failed to delete report''), st)
                       | Some st' \<Rightarrow> (Inr (200, ''Report deleted successfully''), st')))))"

subsection \<open>The invariant of the report table\<close>

text \<open>
  A report belongs to the pair of the local calendar day of its date and its user. The
  invariant: ids are distinct (the primary key) and were handed out by the sequence, and
  no two rows belong to the same pair. The unique index on \<open>(date, userId)\<close> is the
  weaker statement with the exact date in place of its day.
\<close>

definition report_key :: "zone \<Rightarrow> dailyReport \<Rightarrow> int \<times> int" where
  "report_key tz r = (localDay tz (report_date r), report_userId r)"

definition reports_inv :: "zone \<Rightarrow> store \<Rightarrow> bool" where
  "reports_inv tz st =
     (distinct (map report_id (reports st)) \<and>
      list_all (\<lambda>r. report_id r \<le> reportSeq st) (reports st) \<and>
      distinct (map (report_key tz) (reports st)))"

text \<open>The rows the handlers' query matches: the reports of a user in a day's range.\<close>

definition reportsOfDay :: "int \<Rightarrow> int \<times> int \<Rightarrow> store \<Rightarrow> dailyReport list" where
  "reportsOfDay uid rg st =
     filter (\<lambda>r. report_userId r = uid \<and> inRange rg (report_date r)) (reports st)"

subsection \<open>The tasks routes\<close>

text \<open>
  A \<open>where\<close> clause is built field by field: a field is left out, or holds a value, or
  holds \<open>NaN\<close> or an Invalid Date, which makes the query throw.
\<close>

datatype 'a clause = Unset | Invalid | Is 'a

record whereClause =
  wc_userId :: "int clause"
  wc_date :: "(int \<times> int) clause"

definition ofParsed :: "'a option \<Rightarrow> 'a clause" where
  "ofParsed v = (case v of None \<Rightarrow> Invalid | Some x \<Rightarrow> Is x)"

definition matches :: "whereClause \<Rightarrow> task \<Rightarrow> bool" where
  "matches wc t =
     ((case wc_userId wc of Is u \<Rightarrow> task_userId t = u | _ \<Rightarrow> True) \<and>
      (case wc_date wc of Is (gte, lt) \<Rightarrow> gte \<le> task_date t \<and> task_date t < lt | _ \<Rightarrow> True))"

text \<open>The \<open>include: { user: { select: { id, username, position } } }\<close> of the task list.\<close>

definition includeUser :: "store \<Rightarrow> task \<Rightarrow> task \<times> (int \<times> string \<times> string option) option" where
  "includeUser st t =
     (t, map_option (\<lambda>u. (user_id u, user_username u, position u))
           (List.find (\<lambda>u. user_id u = task_userId t) (users st)))"

definition task_findMany ::
  "whereClause \<Rightarrow> store \<Rightarrow> (task \<times> (int \<times> string \<times> string option) option) list option" where
  "task_findMany wc st =
     (if wc_userId wc = Invalid \<or> wc_date wc = Invalid then None
      else Some (map (includeUser st) (sort_key task_createdAt (filter (matches wc) (tasks st)))))"

text \<open>\<open>GET /api/tasks?date=...&userId=...\<close>; \<open>nextDay\<close> is \<open>date\<close> moved to the next local day.\<close>

definition tasks_GET ::
  "zone \<Rightarrow> (string \<Rightarrow> int option) \<Rightarrow> (string \<Rightarrow> int option) \<Rightarrow>
   'a sessionPayload_scheme option \<Rightarrow> string option \<Rightarrow> string option \<Rightarrow> store \<Rightarrow>
   http_error + nat \<times> (task \<times> (int \<times> string \<times> string option) option) list" where
  "tasks_GET tz parseInt newDate session dateStr userIdParam st =
     (case session of
        None \<Rightarrow> Inl Unauthorized
      | Some s \<Rightarrow>
          let byUser =
                (if role s = ''admin'' \<and> \<not> falsy userIdParam
                 then ofParsed (parseInt (the userIdParam))
                 else if role s = ''staff'' then Is (userId s)
                 else Unset);
              byDate =
                (if \<not> falsy dateStr
                 then ofParsed (map_option (\<lambda>date. (date, nextDate tz date)) (newDate (the dateStr)))
                 else Unset)
          in (case task_findMany \<lparr>wc_userId = byUser, wc_date = byDate\<rparr> st of
                None \<Rightarrow> Inl (HttpError 500 ''Internal server error'')
              | Some found \<Rightarrow> Inr (200, found)))"

text \<open>
  The body of a task update: each of the three fields is a string or \<open>undefined\<close>
  (\<open>None\<close>).
\<close>

record taskUpdate =
  new_taskName :: "string option"
  new_plan :: "string option"
  new_result :: "string option"

definition orElse :: "'a option \<Rightarrow> 'a \<Rightarrow> 'a" where
  "orElse supplied prior = (case supplied of None \<Rightarrow> prior | Some v \<Rightarrow> v)"

text \<open>\<open>PUT /api/tasks/[id]\<close>.\<close>

definition task_PUT ::
  "(string \<Rightarrow> int option) \<Rightarrow> 'a sessionPayload_scheme option \<Rightarrow> string \<Rightarrow> taskUpdate \<Rightarrow>
   store \<Rightarrow> (http_error + nat \<times> task) \<times> store" where
  "task_PUT parseInt session id' body st =
     (case session of
        None \<Rightarrow> (Inl Unauthorized, st)
      | Some s \<Rightarrow>
          (case parseInt id' of
             None \<Rightarrow> (Inl (HttpError 500 ''Internal server error''), st)
           | Some taskId \<Rightarrow>
               (case List.find (\<lambda>t. task_id t = taskId) (tasks st) of
                  None \<Rightarrow> (Inl (HttpError 404 ''Task not found''), st)
                | Some existingTask \<Rightarrow>
                    if role s \<noteq> ''admin'' \<and> task_userId existingTask \<noteq> userId s
                    then (Inl Unauthorized, st)
                    else
                      let data = (\<lambda>t. t\<lparr>taskName := orElse (new_taskName body) (taskName existingTask),
                                          plan := orElse (new_plan body) (plan existingTask),
                                          result := orElse (new_result body) (result existingTask)\<rparr>)
                      in (Inr (200, data existingTask),
                          st\<lparr>tasks := map (\<lambda>t. if task_id t = taskId then data t else t)
                                          (tasks st)\<rparr>))))"

text \<open>\<open>DELETE /api/tasks/[id]\<close>.\<close>

definition task_DELETE ::
  "(string \<Rightarrow> int option) \<Rightarrow> 'a sessionPayload_scheme option \<Rightarrow> string \<Rightarrow>
   store \<Rightarrow> (http_error + nat \<times> bool) \<times> store" where
  "task_DELETE parseInt session id' st =
     (case session of
        None \<Rightarrow> (Inl Unauthorized, st)
      | Some s \<Rightarrow>
          (case parseInt id' of
             None \<Rightarrow> (Inl (HttpError 500 ''Internal server error''), st)
           | Some taskId \<Rightarrow>
               (case List.find (\<lambda>t. task_id t = taskId) (tasks st) of
                  None \<Rightarrow> (Inl (HttpError 404 ''Task not found''), st)
                | Some existingTask \<Rightarrow>
                    if role s \<noteq> ''admin'' \<and> task_userId existingTask \<noteq> userId s
                    then (Inl Unauthorized, st)
                    else (Inr (200, True),
                          st\<lparr>tasks := filter (\<lambda>t. task_id t \<noteq> taskId) (tasks st)\<rparr>))))"

subsection \<open>The staff routes\<close>

record staffUpdate =
  new_username :: "string option"
  new_password :: "string option"
  new_position :: "string option"

text \<open>The \<open>select\<close> of the staff update: id, username, role, position, createdAt.\<close>

definition selectStaff :: "user \<Rightarrow> int \<times> string \<times> string \<times> string option \<times> int" where
  "selectStaff u = (user_id u, user_username u, user_role u, position u, user_createdAt u)"

text \<open>
  \<open>PUT /api/staff/[id]\<close>. \<open>hash\<close> stands for \<open>bcrypt.hash(_, 10)\<close>. The body is validated
  before the user is looked up.
\<close>

definition staff_PUT ::
  "(string \<Rightarrow> int option) \<Rightarrow> (string \<Rightarrow> string) \<Rightarrow> 'a sessionPayload_scheme option \<Rightarrow>
   string \<Rightarrow> staffUpdate \<Rightarrow> store \<Rightarrow>
   (http_error + nat \<times> int \<times> string \<times> string \<times> string option \<times> int) \<times> store" where
  "staff_PUT parseInt hash session id' body st =
     (if session = None \<or> role (the session) \<noteq> ''admin'' then (Inl Unauthorized, st)
      else if falsy (new_username body) \<or> falsy (new_position body)
      then (Inl (HttpError 400 ''Username and position are required''), st)
      else
        (case parseInt id' of
           None \<Rightarrow> (Inl (HttpError 500 ''Internal server error''), st)
         | Some staffId \<Rightarrow>
             (case List.find (\<lambda>u. user_id u = staffId) (users st) of
                None \<Rightarrow> (Inl (HttpError 404 ''Staff user not found''), st)
              | Some existingUser \<Rightarrow>
                  if user_role existingUser \<noteq> ''staff''
                  then (Inl (HttpError 404 ''Staff user not found''), st)
                  else
                    (case List.find (\<lambda>u. user_username u = the (new_username body) \<and>
                                           user_id u \<noteq> staffId) (users st) of
                       Some usernameExists \<Rightarrow> (Inl (HttpError 400 ''Username already exists''), st)
                     | None \<Rightarrow>
                         let updateData = (\<lambda>u.
                               (if falsy (new_password body) then u
                                else u\<lparr>password := hash (the (new_password body))\<rparr>)
                               \<lparr>user_username := the (new_username body),
                                position := new_position body\<rparr>)
                         in (Inr (200, selectStaff (updateData existingUser)),
                             st\<lparr>users := map (\<lambda>u. if user_id u = staffId then updateData u else u)
                                             (users st)\<rparr>)))))"

text \<open>
  \<open>DELETE /api/staff/[id]\<close>. What \<open>user.delete\<close> does to the rows that refer to the user
  is fixed by the schema; the call is the parameter \<open>user_delete\<close>, \<open>None\<close> when it throws.
\<close>

definition staff_DELETE ::
  "(string \<Rightarrow> int option) \<Rightarrow> (int \<Rightarrow> store \<Rightarrow> store option) \<Rightarrow>
   'a sessionPayload_scheme option \<Rightarrow> string \<Rightarrow> store \<Rightarrow> (http_error + nat \<times> bool) \<times> store" where
  "staff_DELETE parseInt user_delete session id' st =
     (if session = None \<or> role (the session) \<noteq> ''admin'' then (Inl Unauthorized, st)
      else
        (case parseInt id' of
           None \<Rightarrow> (Inl (HttpError 500 ''Internal server error''), st)
         | Some staffId \<Rightarrow>
             (case List.find (\<lambda>u. user_id u = staffId) (users st) of
                None \<Rightarrow> (Inl (HttpError 404 ''Staff user not found''), st)
              | Some existingUser \<Rightarrow>
                  if user_role existingUser \<noteq> ''staff''
                  then (Inl (HttpError 404 ''Staff user not found''), st)
                  else
                    (case user_delete staffId st of
                       None \<Rightarrow> (Inl (HttpError 500 ''Internal server error''), st)
                     | Some st' \<Rightarrow> (Inr (200, True), st')))))"

subsection \<open>The session token\<close>

text \<open>
  \<open>encrypt\<close> and \<open>decrypt\<close> call \<open>SignJWT\<close> and \<open>jwtVerify\<close> of the JOSE library. A token is
  the text of a compact JWS: the protected header, the payload and the signature, each
  in base64url, joined by dots. What the library and the runtime compute on bytes is a
  parameter, the record \<open>jose\<close>: the HMAC of a signing input under the key, base64url
  in both directions, and JSON in both directions (with \<open>None\<close> where decoding or parsing
  throws, where the header has no usable \<open>alg\<close>, and where the payload is not an object
  with numeric time claims). The library's clock is a parameter, in milliseconds; the
  claims \<open>iat\<close>, \<open>exp\<close> and \<open>nbf\<close> are in seconds.
\<close>

type_synonym bytes = "nat list"

record jwtPayload = sessionPayload +
  iat :: "int option"
  exp :: "int option"
  nbf :: "int option"

record jose =
  hmac :: "string \<Rightarrow> string \<Rightarrow> bytes"
  b64url :: "bytes \<Rightarrow> string"
  unb64url :: "string \<Rightarrow> bytes option"
  headerJson :: "string \<Rightarrow> bytes"
  headerAlg :: "bytes \<Rightarrow> string option"
  claimsJson :: "jwtPayload \<Rightarrow> bytes"
  claimsOfJson :: "bytes \<Rightarrow> jwtPayload option"

datatype jose_error =
  JWSInvalid | JOSEAlgNotAllowed | JWSSignatureVerificationFailed | JWTInvalid |
  JWTClaimValidationFailed | JWTExpired

text \<open>\<open>JSON.stringify\<close> writes a \<open>Date\<close> as its ISO text.\<close>

fun toJSON :: "date_claim \<Rightarrow> date_claim" where
  "toJSON (DateObj t) = IsoString t"
| "toJSON (IsoString t) = IsoString t"

definition epoch :: "int \<Rightarrow> int" where
  "epoch ms = ms div 1000"

text \<open>\<open>text.split(".")\<close>, for any separator.\<close>

fun splitOn :: "char \<Rightarrow> string \<Rightarrow> string list" where
  "splitOn c [] = [[]]"
| "splitOn c (x # xs) =
     (if x = c then [] # splitOn c xs
      else (case splitOn c xs of p # ps \<Rightarrow> (x # p) # ps | [] \<Rightarrow> [[x]]))"

text \<open>
  The claims that \<open>new SignJWT({...payload}).setIssuedAt().setExpirationTime("1d")\<close> holds:
  \<open>setIssuedAt\<close> and \<open>setExpirationTime\<close> each read the clock, \<open>issuedAt\<close> and \<open>expClock\<close>.
\<close>

definition signedClaims :: "int \<Rightarrow> int \<Rightarrow> sessionPayload \<Rightarrow> jwtPayload" where
  "signedClaims issuedAt expClock payload =
     \<lparr>userId = userId payload, username = username payload, role = role payload,
      expiresAt = toJSON (expiresAt payload),
      iat = Some (epoch issuedAt), exp = Some (epoch expClock + 86400), nbf = None\<rparr>"

text \<open>\<open>encrypt\<close>: the claims under the protected header \<open>{alg: "HS256"}\<close>, signed with the key.\<close>

definition encrypt :: "jose \<Rightarrow> string \<Rightarrow> int \<Rightarrow> int \<Rightarrow> sessionPayload \<Rightarrow> string" where
  "encrypt lib key issuedAt expClock payload =
     (let protected = b64url lib (headerJson lib ''HS256'');
          body = b64url lib (claimsJson lib (signedClaims issuedAt expClock payload));
          signature = b64url lib (hmac lib key (protected @ ''.'' @ body))
      in protected @ ''.'' @ body @ ''.'' @ signature)"

text \<open>The validation of the claims set: \<open>nbf\<close> and \<open>exp\<close> against the clock, in seconds.\<close>

definition validateClaims :: "int \<Rightarrow> jwtPayload \<Rightarrow> jose_error + jwtPayload" where
  "validateClaims now claims =
     (if (case nbf claims of Some n \<Rightarrow> n > epoch now | None \<Rightarrow> False)
      then Inl JWTClaimValidationFailed
      else if (case exp claims of Some e \<Rightarrow> e \<le> epoch now | None \<Rightarrow> False)
      then Inl JWTExpired
      else Inr claims)"

text \<open>
  \<open>jwtVerify(session, key, {algorithms: ["HS256"]})\<close>: three parts, the header and its
  algorithm, the signature against the HMAC of the first two parts as they stand in the
  text, the payload, then the claims.
\<close>

definition jwtVerify :: "jose \<Rightarrow> string \<Rightarrow> int \<Rightarrow> string \<Rightarrow> jose_error + jwtPayload" where
  "jwtVerify lib key now jwt =
     (let parts = splitOn CHR ''.'' jwt
      in if length parts \<noteq> 3 then Inl JWSInvalid
         else
           let protected = parts ! 0; body = parts ! 1; signature = parts ! 2
           in (case (if protected = [] then None
                     else Option.bind (unb64url lib protected) (headerAlg lib)) of
                 None \<Rightarrow> Inl JWSInvalid
               | Some alg \<Rightarrow>
                   if alg \<noteq> ''HS256'' then Inl JOSEAlgNotAllowed
                   else
                     (case unb64url lib signature of
                        None \<Rightarrow> Inl JWSInvalid
                      | Some sig \<Rightarrow>
                          if sig \<noteq> hmac lib key (protected @ ''.'' @ body)
                          then Inl JWSSignatureVerificationFailed
                          else
                            (case unb64url lib body of
                               None \<Rightarrow> Inl JWSInvalid
                             | Some json \<Rightarrow>
                                 (case claimsOfJson lib json of
                                    None \<Rightarrow> Inl JWTInvalid
                                  | Some claims \<Rightarrow> validateClaims now claims)))))"

text \<open>
  \<open>decrypt\<close>: \<open>None\<close> as argument is \<open>undefined\<close>, which the default turns into the empty
  string; the empty string returns \<open>null\<close> at once, and whatever \<open>jwtVerify\<close> throws is
  caught.
\<close>

definition decrypt :: "jose \<Rightarrow> string \<Rightarrow> int \<Rightarrow> string option \<Rightarrow> jwtPayload option" where
  "decrypt lib key now session =
     (let session = (case session of None \<Rightarrow> [] | Some text \<Rightarrow> text)
      in if session = [] then None
         else (case jwtVerify lib key now session of
                 Inl thrown \<Rightarrow> None
               | Inr payload \<Rightarrow> Some payload))"

text \<open>
  \<open>createSession\<close> returns the cookie it sets: the token and the cookie's \<open>expires\<close>.
  \<open>now\<close> is \<open>Date.now()\<close>; \<open>issuedAt\<close> and \<open>expClock\<close> are the later readings of \<open>encrypt\<close>.
\<close>

definition createSession ::
  "jose \<Rightarrow> string \<Rightarrow> int \<Rightarrow> int \<Rightarrow> int \<Rightarrow> int \<Rightarrow> string \<Rightarrow> string \<Rightarrow> string \<times> int" where
  "createSession lib key now issuedAt expClock uid uname r =
     (let expiresAt = now + 24 * 60 * 60 * 1000;
          session = encrypt lib key issuedAt expClock
            \<lparr>userId = uid, username = uname, role = r, expiresAt = DateObj expiresAt\<rparr>
      in (session, expiresAt))"

definition getSession :: "jose \<Rightarrow> string \<Rightarrow> int \<Rightarrow> (string \<times> int) option \<Rightarrow> jwtPayload option" where
  "getSession lib key now cookie = decrypt lib key now (map_option fst cookie)"

text \<open>
  What the library's encoding must do for one token to come back: no part holds a dot,
  and the header, the signature and the claims decode to what was encoded.
\<close>

definition roundTrips :: "jose \<Rightarrow> string \<Rightarrow> jwtPayload \<Rightarrow> bool" where
  "roundTrips lib key claims =
     (let protected = b64url lib (headerJson lib ''HS256'');
          body = b64url lib (claimsJson lib claims);
          signature = b64url lib (hmac lib key (protected @ ''.'' @ body))
      in CHR ''.'' \<notin> set protected \<and> CHR ''.'' \<notin> set body \<and> CHR ''.'' \<notin> set signature \<and>
         protected \<noteq> [] \<and>
         Option.bind (unb64url lib protected) (headerAlg lib) = Some ''HS256'' \<and>
         unb64url lib signature = Some (hmac lib key (protected @ ''.'' @ body)) \<and>
         Option.bind (unb64url lib body) (claimsOfJson lib) = Some claims)"

subsection \<open>Base64url\<close>

text \<open>
  Base64url without padding (RFC 4648, section 5) on octets. The decoder takes the
  alphabet only, refuses a length of 1 modulo 4, and drops the bits of the last
  character that do not fill an octet, as the library's decoder does.
\<close>

definition b64chars :: string where
  "b64chars = ''ABCDEFGHIJKLMNOPQRSTUVWXYZabcdefghijklmnopqrstuvwxyz0123456789-_''"

fun sextets :: "nat list \<Rightarrow> nat list" where
  "sextets (a # b # c # rest) =
     [a div 4, (a mod 4) * 16 + b div 16, (b mod 16) * 4 + c div 64, c mod 64] @ sextets rest"
| "sextets [a, b] = [a div 4, (a mod 4) * 16 + b div 16, (b mod 16) * 4]"
| "sextets [a] = [a div 4, (a mod 4) * 16]"
| "sextets [] = []"

fun octets :: "nat list \<Rightarrow> nat list" where
  "octets (p # q # r # s # rest) =
     [p * 4 + q div 16, (q mod 16) * 16 + r div 4, (r mod 4) * 64 + s] @ octets rest"
| "octets [p, q, r] = [p * 4 + q div 16, (q mod 16) * 16 + r div 4]"
| "octets [p, q] = [p * 4 + q div 16]"
| "octets [p] = []"
| "octets [] = []"

fun indexOf :: "'a \<Rightarrow> 'a list \<Rightarrow> nat" where
  "indexOf x [] = 0"
| "indexOf x (y # ys) = (if x = y then 0 else Suc (indexOf x ys))"

definition base64url :: "bytes \<Rightarrow> string" where
  "base64url bs = map (\<lambda>v. b64chars ! v) (sextets bs)"

definition unbase64url :: "string \<Rightarrow> bytes option" where
  "unbase64url text =
     (if list_all (\<lambda>c. List.member b64chars c) text \<and> length text mod 4 \<noteq> 1
      then Some (octets (map (\<lambda>c. indexOf c b64chars) text))
      else None)"

subsection \<open>Sample data\<close>

text \<open>
  Stores, sessions and parameters at which the theorems are instantiated. 1717200000000
  is 2024-06-01T00:00:00Z, 1730592000000 is 2024-11-03T00:00:00Z and 1710028800000 is
  2024-03-10T00:00:00Z. \<open>newYork2024\<close> is the zone America/New_York around 2024: UTC-4
  from 2024-03-10T07:00:00Z to 2024-11-03T06:00:00Z and UTC-5 outside.
\<close>

definition fixedZone :: "int \<Rightarrow> zone" where
  "fixedZone off = \<lparr>offsetAt = (\<lambda>t. off), offsetOfLocal = (\<lambda>t. off)\<rparr>"

definition newYork2024 :: zone where
  "newYork2024 =
     \<lparr>offsetAt = (\<lambda>t. if 1710054000000 \<le> t \<and> t < 1730613600000 then - 4 * hourMs
                        else - 5 * hourMs),
      offsetOfLocal = (\<lambda>t. if 1710039600000 \<le> t \<and> t < 1730599200000 then - 4 * hourMs
                             else - 5 * hourMs)\<rparr>"

text \<open>The local time values that the changes of offset of \<open>newYork2024\<close> neither repeat nor skip.\<close>

definition unambiguous :: "int \<Rightarrow> bool" where
  "unambiguous x =
     (x < 1710036000000 \<or> (1710039600000 \<le> x \<and> x < 1730595600000) \<or> 1730599200000 \<le> x)"

definition sampleDates :: "string \<Rightarrow> int option" where
  "sampleDates s =
     (if s = ''2024-06-01'' then Some 1717200000000
      else if s = ''2024-06-02'' then Some 1717286400000
      else if s = ''2024-11-03'' then Some 1730592000000
      else if s = ''2024-03-10'' then Some 1710028800000
      else None)"

definition sampleInts :: "string \<Rightarrow> int option" where
  "sampleInts s =
     (if s = ''1'' then Some 1 else if s = ''2'' then Some 2 else if s = ''3'' then Some 3
      else if s = ''7'' then Some 7 else None)"

definition alice :: sessionPayload where
  "alice = \<lparr>userId = 2, username = ''alice'', role = ''staff'', expiresAt = IsoString 1717290000000\<rparr>"

definition bob :: sessionPayload where
  "bob = \<lparr>userId = 3, username = ''bob'', role = ''staff'', expiresAt = IsoString 1717290000000\<rparr>"

definition root :: sessionPayload where
  "root = \<lparr>userId = 1, username = ''admin'', role = ''admin'', expiresAt = IsoString 1717290000000\<rparr>"

definition writeCopy :: task where
  "writeCopy = \<lparr>task_id = 1, task_date = 1717200000000, taskName = ''Write copy'', plan = ''5'',
                 result = [], task_userId = 2, task_createdAt = 1717230000000\<rparr>"

definition buyAds :: task where
  "buyAds = \<lparr>task_id = 2, task_date = 1717200000000, taskName = ''Buy ads'', plan = ''3'',
              result = [], task_userId = 3, task_createdAt = 1717231000000\<rparr>"

definition sampleUsers :: "user list" where
  "sampleUsers =
     [\<lparr>user_id = 1, user_username = ''admin'', password = ''h1'', user_role = ''admin'',
        position = None, user_createdAt = 0\<rparr>,
      \<lparr>user_id = 2, user_username = ''alice'', password = ''h2'', user_role = ''staff'',
        position = Some ''media_buyer'', user_createdAt = 0\<rparr>,
      \<lparr>user_id = 3, user_username = ''bob'', password = ''h3'', user_role = ''staff'',
        position = Some ''graphic_design'', user_createdAt = 0\<rparr>]"

definition sampleStore :: store where
  "sampleStore = \<lparr>tasks = [writeCopy, buyAds], reports = [], reportSeq = 0, users = sampleUsers\<rparr>"

text \<open>A store for the New York samples: one task of alice, dated 2024-11-03T00:00:00Z.\<close>

definition fallTask :: task where
  "fallTask = \<lparr>task_id = 1, task_date = 1730592000000, taskName = ''Write copy'', plan = ''5'',
                result = [], task_userId = 2, task_createdAt = 1730592500000\<rparr>"

definition fallStore :: store where
  "fallStore = \<lparr>tasks = [fallTask], reports = [], reportSeq = 0, users = sampleUsers\<rparr>"

definition fallReport :: dailyReport where
  "fallReport = \<lparr>report_id = 1, report_date = 1730563200000, report_userId = 2, submitted = True,
                  submittedAt = Some 1730600000005, report_createdAt = 1730600000005\<rparr>"

definition fallSubmitted :: store where
  "fallSubmitted = fallStore\<lparr>reports := [fallReport], reportSeq := 1\<rparr>"

definition sampleHash :: "string \<Rightarrow> string" where
  "sampleHash pw = CHR ''#'' # pw"

definition sampleUserDelete :: "int \<Rightarrow> store \<Rightarrow> store option" where
  "sampleUserDelete uid st = Some (st\<lparr>users := filter (\<lambda>u. user_id u \<noteq> uid) (users st)\<rparr>)"

definition markDone :: taskUpdate where
  "markDone = \<lparr>new_taskName = None, new_plan = None, new_result = Some ''done''\<rparr>"

definition renameRoot :: staffUpdate where
  "renameRoot = \<lparr>new_username = Some ''root'', new_password = Some ''pw'',
                  new_position = Some ''media_buyer''\<rparr>"

definition noPosition :: staffUpdate where
  "noPosition = \<lparr>new_username = Some ''root'', new_password = Some ''pw'', new_position = None\<rparr>"

text \<open>
  A sample library: base64url as above, a stand-in for HMAC-SHA256 that gives 32 octets,
  and a stand-in for JSON that writes the header \<open>{"alg":"HS256"}\<close> as its octets and a
  claims set as a few octets, and reads back the claims sets of the samples.
\<close>

definition sampleHmac :: "string \<Rightarrow> string \<Rightarrow> bytes" where
  "sampleHmac key input =
     map (\<lambda>i. (sum_list (map of_char (key @ input)) + 7 * i) mod 256) [0..<32]"

definition hs256Header :: bytes where
  "hs256Header = [123, 34, 97, 108, 103, 34, 58, 34, 72, 83, 50, 53, 54, 34, 125]"

definition sampleHeaderJson :: "string \<Rightarrow> bytes" where
  "sampleHeaderJson alg = (if alg = ''HS256'' then hs256Header else map of_char alg)"

definition sampleHeaderAlg :: "bytes \<Rightarrow> string option" where
  "sampleHeaderAlg bs = (if bs = hs256Header then Some ''HS256'' else None)"

definition sampleClaimsJson :: "jwtPayload \<Rightarrow> bytes" where
  "sampleClaimsJson c =
     nat (userId c mod 256) # map of_char (role c) @
     [case expiresAt c of IsoString t \<Rightarrow> nat ((t div 100000) mod 256) | DateObj t \<Rightarrow> 255,
      case iat c of Some i \<Rightarrow> nat (i mod 256) | None \<Rightarrow> 0,
      case exp c of Some e \<Rightarrow> nat (e mod 256) | None \<Rightarrow> 0]"

definition aliceFor :: "int \<Rightarrow> sessionPayload" where
  "aliceFor t = \<lparr>userId = 2, username = ''alice'', role = ''staff'', expiresAt = DateObj t\<rparr>"

definition sampleClaims :: jwtPayload where
  "sampleClaims = \<lparr>userId = 2, username = ''alice'', role = ''staff'',
                    expiresAt = IsoString 86400000, iat = Some 0, exp = Some 86400, nbf = None\<rparr>"

definition knownClaims :: "jwtPayload list" where
  "knownClaims =
     [sampleClaims, signedClaims 0 0 (aliceFor 3600000), signedClaims 1500 1500 (aliceFor 86401500),
      signedClaims 999 1000 (aliceFor 86400000)]"

definition sampleClaimsOfJson :: "bytes \<Rightarrow> jwtPayload option" where
  "sampleClaimsOfJson bs = List.find (\<lambda>c. sampleClaimsJson c = bs) knownClaims"

definition sampleJose :: jose where
  "sampleJose =
     \<lparr>hmac = sampleHmac, b64url = base64url, unb64url = unbase64url,
      headerJson = sampleHeaderJson, headerAlg = sampleHeaderAlg,
      claimsJson = sampleClaimsJson, claimsOfJson = sampleClaimsOfJson\<rparr>"

definition sampleToken :: string where
  "sampleToken = encrypt sampleJose ''k'' 0 0 (aliceFor 86400000)"

text \<open>The sample token with its last character, \<open>c\<close>, replaced by \<open>d\<close>.\<close>

definition tamperedToken :: string where
  "tamperedToken = butlast sampleToken @ ''d''"


section \<open>Properties\<close>

subsection \<open>Calendar days\<close>

lemma div_eq_iff_between:
  fixes x k m :: int
  assumes "0 < m"
  shows "x div m = k \<longleftrightarrow> k * m \<le> x \<and> x < k * m + m"
proof
  assume "x div m = k"
  then have "x = k * m + x mod m" by (metis mult.commute mult_div_mod_eq)
  moreover have "0 \<le> x mod m" "x mod m < m" using assms by simp_all
  ultimately show "k * m \<le> x \<and> x < k * m + m" by linarith
next
  assume h: "k * m \<le> x \<and> x < k * m + m"
  then have "x = m * k + (x - k * m)" "0 \<le> x - k * m" "x - k * m < m"
    by (simp_all add: mult.commute)
  then show "x div m = k" by (rule int_div_pos_eq)
qed

lemma Day_iff: "Day x = k \<longleftrightarrow> k * dayMs \<le> x \<and> x \<le> k * dayMs + (dayMs - 1)"
proof -
  have "0 < dayMs" by (simp add: dayMs_def)
  from div_eq_iff_between [OF this, of x k] show ?thesis by (auto simp: Day_def)
qed

lemma getDateRange_dayRange: "getDateRange tz d = dayRange tz (localDay tz d)"
  by (simp add: getDateRange_def dayRange_def setHours_def localDay_def)


lemma inRange_getDateRange:
  "zone_ok tz \<Longrightarrow> inRange (getDateRange tz d) t \<longleftrightarrow> localDay tz t = localDay tz d"
  by (simp add: getDateRange_dayRange zone_ok_def)


text \<open>A fixed offset keeps its calendar days, and its deadline is the end of day plus 24 hours.\<close>

lemma fixed_local:
  "LocalTime (fixedZone off) t = t + off" "UTC (fixedZone off) t = t - off"
  by (simp_all add: LocalTime_def UTC_def fixedZone_def)

lemma zone_ok_fixed: "zone_ok (fixedZone off)"
proof -
  have a: "inRange (dayRange (fixedZone off) k) t = (localDay (fixedZone off) t = k)" for k t
    unfolding localDay_def Day_iff
    by (auto simp: fixed_local inRange_def dayRange_def MakeDate_def MakeTime_def hourMs_def
        dayMs_def)
  have b: "localDay (fixedZone off) (noonOf (fixedZone off) k) = k" for k
    unfolding localDay_def Day_iff
    by (simp add: fixed_local noonOf_def MakeDate_def MakeTime_def hourMs_def dayMs_def)
  from a b show ?thesis by (simp add: zone_ok_def)
qed

lemma end_of_day_parts:
  assumes "x = k * dayMs + 86399999"
  shows "HourFromTime x = 23" "MinFromTime x = 59" "SecFromTime x = 59" "msFromTime x = 999"
    "Day x = k"
proof -
  have h: "x = (k * 24 + 23) * 3600000 + 3599999" using assms by (simp add: dayMs_def)
  have "x div 3600000 = k * 24 + 23" unfolding h by simp
  then show "HourFromTime x = 23" by (simp add: HourFromTime_def hourMs_def)
  have m: "x = (k * 1440 + 1439) * 60000 + 59999" using assms by (simp add: dayMs_def)
  have "x div 60000 = (k * 24 + 23) * 60 + 59" unfolding m by simp
  then show "MinFromTime x = 59" unfolding MinFromTime_def by (simp only: mod_mult_self3) simp
  have s: "x = (k * 86400 + 86399) * 1000 + 999" using assms by (simp add: dayMs_def)
  have "x div 1000 = (k * 1440 + 1439) * 60 + 59" unfolding s by simp
  then show "SecFromTime x = 59" unfolding SecFromTime_def by (simp only: mod_mult_self3) simp
  show "msFromTime x = 999" unfolding msFromTime_def s by (simp only: mod_mult_self3) simp
  show "Day x = k" unfolding Day_iff using assms by (simp add: dayMs_def)
qed

lemma submissionDeadline_fixed:
  "submissionDeadline (fixedZone off) d = snd (getDateRange (fixedZone off) d) + 24 * hourMs"
proof -
  let ?z = "fixedZone off"
  let ?k = "localDay ?z d"
  have e: "setHours ?z d 23 59 59 999 = ?k * dayMs + 86399999 - off"
    by (simp add: fixed_local setHours_def localDay_def MakeDate_def MakeTime_def hourMs_def)
  have l: "LocalTime ?z (setHours ?z d 23 59 59 999) = ?k * dayMs + 86399999"
    by (simp add: fixed_local e)
  note p = end_of_day_parts [OF l]
  have "submissionDeadline ?z d = UTC ?z (MakeDate ?k (MakeTime (23 + 24) 59 59 999))"
    unfolding submissionDeadline_def Let_def setHour_def getHours_def p ..
  also have "\<dots> = ?k * dayMs + 86399999 - off + 24 * hourMs"
    by (simp add: fixed_local MakeDate_def MakeTime_def hourMs_def)
  finally show ?thesis by (simp add: getDateRange_def e)
qed

text \<open>
  New York keeps its calendar days: its offset changes at 02:00 local time, so neither a
  midnight, nor a noon, nor a last millisecond of a day is repeated or skipped.
\<close>

lemma newYork_local:
  "LocalTime newYork2024 t =
     (if 1710054000000 \<le> t \<and> t < 1730613600000 then t - 14400000 else t - 18000000)"
  "UTC newYork2024 x =
     (if 1710039600000 \<le> x \<and> x < 1730599200000 then x + 14400000 else x + 18000000)"
  by (simp_all add: LocalTime_def UTC_def newYork2024_def hourMs_def)

lemma newYork_lower:
  "unambiguous b \<Longrightarrow> UTC newYork2024 b \<le> t \<longleftrightarrow> b \<le> LocalTime newYork2024 t"
  unfolding newYork_local unambiguous_def by (auto split: if_splits)

lemma newYork_upper:
  "unambiguous e \<Longrightarrow> t \<le> UTC newYork2024 e \<longleftrightarrow> LocalTime newYork2024 t \<le> e"
  unfolding newYork_local unambiguous_def by (auto split: if_splits)

lemma newYork_roundtrip:
  "unambiguous x \<Longrightarrow> LocalTime newYork2024 (UTC newYork2024 x) = x"
  unfolding newYork_local unambiguous_def by (auto split: if_splits)

lemma unambiguous_midnight: "unambiguous (k * 86400000)"
proof -
  have "k \<le> 19792 \<or> (19793 \<le> k \<and> k \<le> 20030) \<or> 20031 \<le> k" by linarith
  then show ?thesis unfolding unambiguous_def by (elim disjE conjE) simp_all
qed

lemma unambiguous_last: "unambiguous (k * 86400000 + 86399999)"
proof -
  have "k \<le> 19791 \<or> (19792 \<le> k \<and> k \<le> 20029) \<or> 20030 \<le> k" by linarith
  then show ?thesis unfolding unambiguous_def by (elim disjE conjE) simp_all
qed

lemma unambiguous_noon: "unambiguous (k * 86400000 + 43200000)"
proof -
  have "k \<le> 19791 \<or> (19792 \<le> k \<and> k \<le> 20029) \<or> 20030 \<le> k" by linarith
  then show ?thesis unfolding unambiguous_def by (elim disjE conjE) simp_all
qed

lemma zone_ok_newYork2024: "zone_ok newYork2024"
proof -
  have a: "inRange (dayRange newYork2024 k) t = (localDay newYork2024 t = k)" for k t
  proof -
    have "inRange (dayRange newYork2024 k) t \<longleftrightarrow>
        UTC newYork2024 (k * 86400000) \<le> t \<and> t \<le> UTC newYork2024 (k * 86400000 + 86399999)"
      by (simp add: inRange_def dayRange_def MakeDate_def MakeTime_def hourMs_def dayMs_def)
    also have "\<dots> \<longleftrightarrow> k * 86400000 \<le> LocalTime newYork2024 t \<and>
        LocalTime newYork2024 t \<le> k * 86400000 + 86399999"
      by (simp only: newYork_lower [OF unambiguous_midnight]
          newYork_upper [OF unambiguous_last])
    also have "\<dots> \<longleftrightarrow> localDay newYork2024 t = k"
      unfolding localDay_def Day_iff by (simp add: dayMs_def)
    finally show ?thesis .
  qed
  have b: "localDay newYork2024 (noonOf newYork2024 k) = k" for k
  proof -
    have "noonOf newYork2024 k = UTC newYork2024 (k * 86400000 + 43200000)"
      by (simp add: noonOf_def MakeDate_def MakeTime_def hourMs_def dayMs_def)
    then have "LocalTime newYork2024 (noonOf newYork2024 k) = k * 86400000 + 43200000"
      by (simp only: newYork_roundtrip [OF unambiguous_noon])
    then show ?thesis unfolding localDay_def Day_iff by (simp add: dayMs_def)
  qed
  from a b show ?thesis by (simp add: zone_ok_def)
qed

subsection \<open>The report table and its invariant\<close>

lemma query_is_key:
  "zone_ok tz \<Longrightarrow>
   (report_userId r = uid \<and> inRange (getDateRange tz d) (report_date r))
   \<longleftrightarrow> report_key tz r = (localDay tz d, uid)"
  by (auto simp: report_key_def inRange_getDateRange)


lemma find_distinct_key:
  "distinct (map f xs) \<Longrightarrow> x \<in> set xs \<Longrightarrow> List.find (\<lambda>y. f y = f x) xs = Some x"
  by (induction xs) auto

lemma find_in_set: "List.find P xs = Some x \<Longrightarrow> x \<in> set xs \<and> P x"
  by (induction xs) (auto split: if_splits)

lemma find_None_set: "List.find P xs = None \<longleftrightarrow> (\<forall>x\<in>set xs. \<not> P x)"
  by (induction xs) auto


lemma resubmit_fields [simp]:
  "report_id (resubmit at r) = report_id r"
  "report_date (resubmit at r) = report_date r"
  "report_userId (resubmit at r) = report_userId r"
  "submitted (resubmit at r)"
  "submittedAt (resubmit at r) = Some at"
  by (simp_all add: resubmit_def)

lemma report_key_resubmit [simp]: "report_key tz (resubmit at r) = report_key tz r"
  by (simp add: report_key_def)


lemma findReport_key:
  "zone_ok tz \<Longrightarrow> findReport uid (getDateRange tz d) st =
     List.find (\<lambda>r. report_key tz r = (localDay tz d, uid)) (reports st)"
  by (simp add: findReport_def query_is_key)

lemma reportsOfDay_key:
  "zone_ok tz \<Longrightarrow> reportsOfDay uid (getDateRange tz d) st =
     filter (\<lambda>r. report_key tz r = (localDay tz d, uid)) (reports st)"
  by (simp add: reportsOfDay_def query_is_key)






subsection \<open>Submitting a report\<close>








subsection \<open>The sample data, evaluated\<close>

lemma fall_range: "getDateRange newYork2024 1730592000000 = (1730520000000, 1730606399999)"
  by (simp add: getDateRange_def setHours_def newYork_local Day_def MakeDate_def MakeTime_def
      dayMs_def hourMs_def)





lemma fall_inv: "reports_inv newYork2024 fallStore" "reports_inv newYork2024 fallSubmitted"
  by (simp_all add: reports_inv_def fallStore_def fallSubmitted_def fallReport_def)



subsection \<open>The claims about the reports route\<close>



text \<open>
  The handler rejects every submit that comes after the deadline it computes, and leaves
  the store as it was; at a fixed offset that deadline is the end of the selected day
  plus 24 hours (\<open>submissionDeadline_fixed\<close>).
\<close>

lemma reports_POST_past_deadline:
  assumes "ds \<noteq> []" "newDate ds = Some d" "now > submissionDeadline tz d"
  shows "reports_POST tz newDate now at (Some s) (Some ds) st = (Inl DeadlinePassed, st)"
  using assms by (simp add: reports_POST_def falsy_def Let_def)





lemma filter_distinct_remove1:
  "distinct (map f xs) \<Longrightarrow> x \<in> set xs \<Longrightarrow> filter (\<lambda>y. f y \<noteq> f x) xs = remove1 x xs"
proof (induction xs)
  case Nil
  then show ?case by simp
next
  case (Cons a xs)
  show ?case
  proof (cases "a = x")
    case True
    with Cons.prems have "\<forall>y\<in>set xs. f y \<noteq> f x" by (auto simp: image_iff)
    then have "filter (\<lambda>y. f y \<noteq> f x) xs = xs" by (simp add: filter_id_conv)
    with True show ?thesis by simp
  next
    case False
    with Cons.prems have "x \<in> set xs" "f a \<noteq> f x" by auto
    with Cons False show ?thesis by simp
  qed
qed

lemma delete_found:
  assumes inv: "reports_inv tz st" and mem: "r \<in> set (reports st)"
  shows "dailyReport_delete (report_id r) st = Some (st\<lparr>reports := remove1 r (reports st)\<rparr>)"
proof -
  from inv have "distinct (map report_id (reports st))" by (simp add: reports_inv_def)
  from filter_distinct_remove1 [OF this mem] mem show ?thesis
    by (auto simp: dailyReport_delete_def list_ex_iff)
qed

lemma distinct_map_remove1:
  "distinct (map f xs) \<Longrightarrow> distinct (map f (remove1 x xs))"
  by (metis distinct_map distinct_remove1 inj_on_subset set_remove1_subset)

lemma remove1_inv:
  assumes inv: "reports_inv tz st"
  shows "reports_inv tz (st\<lparr>reports := remove1 r (reports st)\<rparr>)"
proof -
  have sub: "set (remove1 r (reports st)) \<subseteq> set (reports st)" by (rule set_remove1_subset)
  from inv sub show ?thesis
    by (auto simp: reports_inv_def list_all_iff distinct_map_remove1)
qed

text \<open>
  C6. In a zone that keeps its calendar days and on a store that satisfies the
  invariant: withdrawing when the caller has no report in the day's range fails with NotFound
  and leaves the store as it was. Withdrawing when there is one removes that row and no
  other, leaves tasks and users as they were, and the same query afterwards finds
  nothing.
\<close>

theorem withdraw_report:
  assumes zk: "zone_ok tz" and inv: "reports_inv tz st"
    and ne: "ds \<noteq> []" and parsed: "newDate ds = Some d"
  shows "(findReport (userId s) (getDateRange tz d) st = None \<longrightarrow>
            reports_DELETE tz newDate (Some s) (Some ds) st = (Inl ReportNotFound, st)) \<and>
         (\<forall>r. findReport (userId s) (getDateRange tz d) st = Some r \<longrightarrow>
            reports_DELETE tz newDate (Some s) (Some ds) st =
              (Inr (200, ''Report deleted successfully''),
               st\<lparr>reports := remove1 r (reports st)\<rparr>) \<and>
            r \<in> set (reports st) \<and>
            set (remove1 r (reports st)) = set (reports st) - {r} \<and>
            findReport (userId s) (getDateRange tz d) (st\<lparr>reports := remove1 r (reports st)\<rparr>) = None \<and>
            reportsOfDay (userId s) (getDateRange tz d) (st\<lparr>reports := remove1 r (reports st)\<rparr>) = [] \<and>
            reports_inv tz (st\<lparr>reports := remove1 r (reports st)\<rparr>))"
proof (intro conjI allI impI)
  assume "findReport (userId s) (getDateRange tz d) st = None"
  with ne parsed show "reports_DELETE tz newDate (Some s) (Some ds) st = (Inl ReportNotFound, st)"
    by (simp add: reports_DELETE_def falsy_def)
next
  fix r
  assume f: "findReport (userId s) (getDateRange tz d) st = Some r"
  then have mem: "r \<in> set (reports st)" and key: "report_key tz r = (localDay tz d, userId s)"
    using find_in_set [of "\<lambda>r. report_key tz r = (localDay tz d, userId s)" "reports st" r]
    by (simp_all add: findReport_key [OF zk])
  let ?st' = "st\<lparr>reports := remove1 r (reports st)\<rparr>"
  show "r \<in> set (reports st)" by (rule mem)
  from f ne parsed delete_found [OF inv mem]
  show "reports_DELETE tz newDate (Some s) (Some ds) st =
          (Inr (200, ''Report deleted successfully''), ?st')"
    by (simp add: reports_DELETE_def falsy_def)
  from inv have di: "distinct (reports st)"
    by (simp add: reports_inv_def distinct_map)
  then show rest: "set (remove1 r (reports st)) = set (reports st) - {r}" by simp
  from inv have dk: "distinct (map (report_key tz) (reports st))" by (simp add: reports_inv_def)
  have none: "\<forall>x\<in>set (remove1 r (reports st)). report_key tz x \<noteq> (localDay tz d, userId s)"
  proof
    fix x assume "x \<in> set (remove1 r (reports st))"
    with rest have "x \<in> set (reports st)" "x \<noteq> r" by auto
    with dk mem have "report_key tz x \<noteq> report_key tz r"
      by (meson distinct_map inj_on_def)
    with key show "report_key tz x \<noteq> (localDay tz d, userId s)" by simp
  qed
  then show "findReport (userId s) (getDateRange tz d) ?st' = None"
    by (simp add: findReport_key [OF zk] find_None_set)
  from none show "reportsOfDay (userId s) (getDateRange tz d) ?st' = []"
    by (simp add: reportsOfDay_key [OF zk] filter_empty_conv)
  show "reports_inv tz ?st'" by (rule remove1_inv [OF inv])
qed

theorem withdraw_report_witness:
  "zone_ok newYork2024 \<and> reports_inv newYork2024 fallSubmitted \<and> ''2024-11-03'' \<noteq> [] \<and>
   sampleDates ''2024-11-03'' = Some 1730592000000 \<and>
   findReport (userId bob) (getDateRange newYork2024 1730592000000) fallSubmitted = None \<and>
   reports_DELETE newYork2024 sampleDates (Some bob) (Some ''2024-11-03'') fallSubmitted =
     (Inl ReportNotFound, fallSubmitted) \<and>
   findReport (userId alice) (getDateRange newYork2024 1730592000000) fallSubmitted =
     Some fallReport \<and>
   reports_DELETE newYork2024 sampleDates (Some alice) (Some ''2024-11-03'') fallSubmitted =
     (Inr (200, ''Report deleted successfully''), fallStore\<lparr>reportSeq := 1\<rparr>) \<and>
   findReport (userId alice) (getDateRange newYork2024 1730592000000)
     (fallStore\<lparr>reportSeq := 1\<rparr>) = None"
proof -
  have p: "sampleDates ''2024-11-03'' = Some 1730592000000" by (simp add: sampleDates_def)
  have ne: "''2024-11-03'' \<noteq> []" by simp
  have fb: "findReport (userId bob) (getDateRange newYork2024 1730592000000) fallSubmitted = None"
    by (simp add: findReport_def fall_range inRange_def fallSubmitted_def fallReport_def bob_def)
  have fa: "findReport (userId alice) (getDateRange newYork2024 1730592000000) fallSubmitted =
      Some fallReport"
    by (simp add: findReport_def fall_range inRange_def fallSubmitted_def fallReport_def
        alice_def)
  have st: "fallSubmitted\<lparr>reports := remove1 fallReport (reports fallSubmitted)\<rparr> =
      fallStore\<lparr>reportSeq := 1\<rparr>"
    by (simp add: fallSubmitted_def fallStore_def)
  from withdraw_report [where newDate = sampleDates and s = bob,
      OF zone_ok_newYork2024 fall_inv(2) ne p] fb
  have "reports_DELETE newYork2024 sampleDates (Some bob) (Some ''2024-11-03'') fallSubmitted =
     (Inl ReportNotFound, fallSubmitted)" by blast
  moreover from withdraw_report [where newDate = sampleDates and s = alice,
      OF zone_ok_newYork2024 fall_inv(2) ne p] fa
  have "reports_DELETE newYork2024 sampleDates (Some alice) (Some ''2024-11-03'') fallSubmitted =
          (Inr (200, ''Report deleted successfully''),
           fallSubmitted\<lparr>reports := remove1 fallReport (reports fallSubmitted)\<rparr>) \<and>
        findReport (userId alice) (getDateRange newYork2024 1730592000000)
          (fallSubmitted\<lparr>reports := remove1 fallReport (reports fallSubmitted)\<rparr>) = None"
    by blast
  ultimately show ?thesis using zone_ok_newYork2024 fall_inv(2) p fb fa unfolding st by simp
qed

subsection \<open>The claims about the session token\<close>

lemma splitOn_no_separator: "c \<notin> set a \<Longrightarrow> splitOn c a = [a]"
  by (induction a) auto

lemma splitOn_first: "c \<notin> set a \<Longrightarrow> splitOn c (a @ c # rest) = a # splitOn c rest"
  by (induction a) auto

lemma splitOn_three:
  assumes "c \<notin> set h" "c \<notin> set b" "c \<notin> set s"
  shows "splitOn c (h @ [c] @ b @ [c] @ s) = [h, b, s]"
  using assms by (simp add: splitOn_first splitOn_no_separator)

text \<open>What \<open>jwtVerify\<close> does with a text of three parts.\<close>

lemma jwtVerify_three:
  assumes "CHR ''.'' \<notin> set h" "CHR ''.'' \<notin> set b" "CHR ''.'' \<notin> set s"
  shows "jwtVerify lib key now (h @ ''.'' @ b @ ''.'' @ s) =
     (case (if h = [] then None else Option.bind (unb64url lib h) (headerAlg lib)) of
        None \<Rightarrow> Inl JWSInvalid
      | Some alg \<Rightarrow>
          if alg \<noteq> ''HS256'' then Inl JOSEAlgNotAllowed
          else
            (case unb64url lib s of
               None \<Rightarrow> Inl JWSInvalid
             | Some sig \<Rightarrow>
                 if sig \<noteq> hmac lib key (h @ ''.'' @ b) then Inl JWSSignatureVerificationFailed
                 else
                   (case unb64url lib b of
                      None \<Rightarrow> Inl JWSInvalid
                    | Some json \<Rightarrow>
                        (case claimsOfJson lib json of
                           None \<Rightarrow> Inl JWTInvalid
                         | Some claims \<Rightarrow> validateClaims now claims))))"
proof -
  have "splitOn CHR ''.'' (h @ ''.'' @ b @ ''.'' @ s) = [h, b, s]"
    using splitOn_three [OF assms] by simp
  then show ?thesis by (simp add: jwtVerify_def Let_def)
qed

lemma decrypt_three:
  "decrypt lib key now (Some (h @ ''.'' @ b @ ''.'' @ s)) =
     (case jwtVerify lib key now (h @ ''.'' @ b @ ''.'' @ s) of
        Inl thrown \<Rightarrow> None | Inr payload \<Rightarrow> Some payload)"
  by (simp add: decrypt_def)

lemma validateClaims_signed:
  "validateClaims now (signedClaims issuedAt expClock p) =
     (if epoch expClock + 86400 \<le> epoch now then Inl JWTExpired
      else Inr (signedClaims issuedAt expClock p))"
  by (simp add: validateClaims_def signedClaims_def)

lemma decrypt_issued:
  assumes "roundTrips lib key (signedClaims issuedAt expClock p)"
  shows "decrypt lib key now (Some (encrypt lib key issuedAt expClock p)) =
     (if epoch now < epoch expClock + 86400 then Some (signedClaims issuedAt expClock p)
      else None)"
proof -
  let ?c = "signedClaims issuedAt expClock p"
  let ?h = "b64url lib (headerJson lib ''HS256'')"
  let ?b = "b64url lib (claimsJson lib ?c)"
  let ?s = "b64url lib (hmac lib key (?h @ ''.'' @ ?b))"
  from assms have dots: "CHR ''.'' \<notin> set ?h" "CHR ''.'' \<notin> set ?b" "CHR ''.'' \<notin> set ?s"
    and h: "?h \<noteq> []" "Option.bind (unb64url lib ?h) (headerAlg lib) = Some ''HS256''"
    and s: "unb64url lib ?s = Some (hmac lib key (?h @ ''.'' @ ?b))"
    and b: "Option.bind (unb64url lib ?b) (claimsOfJson lib) = Some ?c"
    by (simp_all add: roundTrips_def Let_def)
  from b obtain json where j: "unb64url lib ?b = Some json" "claimsOfJson lib json = Some ?c"
    by (cases "unb64url lib ?b") simp_all
  have e: "encrypt lib key issuedAt expClock p = ?h @ ''.'' @ ?b @ ''.'' @ ?s"
    by (simp add: encrypt_def Let_def)
  have "jwtVerify lib key now (?h @ ''.'' @ ?b @ ''.'' @ ?s) = validateClaims now ?c"
    unfolding jwtVerify_three [OF dots] using h s j by simp
  then show ?thesis
    unfolding e decrypt_three by (simp add: validateClaims_signed)
qed

lemma sample_roundTrips:
  "roundTrips sampleJose ''k'' sampleClaims"
  "roundTrips sampleJose ''k'' (signedClaims 0 0 (aliceFor 3600000))"
  "roundTrips sampleJose ''k'' (signedClaims 1500 1500 (aliceFor 86401500))"
  "roundTrips sampleJose ''k'' (signedClaims 999 1000 (aliceFor 86400000))"
  by code_simp+

lemma sample_signed: "signedClaims 0 0 (aliceFor 86400000) = sampleClaims"
  by code_simp

lemma sample_text:
  "sampleToken = ''eyJhbGciOiJIUzI1NiJ9.AnN0YWZmYACA.LjU8Q0pRWF9mbXR7gomQl56lrLO6wcjP1t3k6_L5AAc''"
  "tamperedToken = ''eyJhbGciOiJIUzI1NiJ9.AnN0YWZmYACA.LjU8Q0pRWF9mbXR7gomQl56lrLO6wcjP1t3k6_L5AAd''"
  by code_simp+

text \<open>
  C4, as amended. When the library's encoding of the token round-trips, decoding an
  encoded session returns its \<open>userId\<close>, \<open>username\<close> and \<open>role\<close> unchanged, \<open>expiresAt\<close> as
  the ISO text of the same instant, and the added claims \<open>iat\<close> and \<open>exp\<close>, as long as the
  second of the decoding clock is before \<open>exp\<close>, which is 86400 seconds after the second
  at which \<open>setExpirationTime\<close> read the clock; from then on it returns \<open>null\<close>. The
  session's own \<open>expiresAt\<close> is not consulted.
\<close>

theorem decrypt_encrypt:
  assumes "roundTrips lib key (signedClaims issuedAt expClock p)"
  shows "decrypt lib key now (Some (encrypt lib key issuedAt expClock p)) =
           (if epoch now < epoch expClock + 86400
            then Some \<lparr>userId = userId p, username = username p, role = role p,
                       expiresAt = toJSON (expiresAt p),
                       iat = Some (epoch issuedAt), exp = Some (epoch expClock + 86400),
                       nbf = None\<rparr>
            else None)"
  using decrypt_issued [OF assms, of now] by (simp add: signedClaims_def)

theorem decrypt_encrypt_witness:
  "roundTrips sampleJose ''k'' (signedClaims 999 1000 (aliceFor 86400000)) \<and>
   decrypt sampleJose ''k'' 86400999
     (Some (encrypt sampleJose ''k'' 999 1000 (aliceFor 86400000))) =
     Some \<lparr>userId = 2, username = ''alice'', role = ''staff'', expiresAt = IsoString 86400000,
            iat = Some 0, exp = Some 86401, nbf = None\<rparr> \<and>
   decrypt sampleJose ''k'' 86401000
     (Some (encrypt sampleJose ''k'' 999 1000 (aliceFor 86400000))) = None"
  using decrypt_encrypt [OF sample_roundTrips(4), of 86400999]
    decrypt_encrypt [OF sample_roundTrips(4), of 86401000] sample_roundTrips(4)
  by (simp add: epoch_def aliceFor_def)

text \<open>
  A session whose \<open>expiresAt\<close> is one hour after signing still decodes two hours after
  signing; and a session made by \<open>createSession\<close> at 1.5 s, with \<open>expiresAt\<close> 86401.5 s,
  already decodes to \<open>null\<close> at 86401 s.
\<close>

theorem decrypt_encrypt_counterexample:
  "decrypt sampleJose ''k'' 7200000
     (Some (encrypt sampleJose ''k'' 0 0 (aliceFor 3600000))) =
     Some (signedClaims 0 0 (aliceFor 3600000)) \<and>
   snd (createSession sampleJose ''k'' 1500 1500 1500 2 ''alice'' ''staff'') = 86401500 \<and>
   decrypt sampleJose ''k'' 86401000
     (Some (fst (createSession sampleJose ''k'' 1500 1500 1500 2 ''alice'' ''staff''))) = None"
proof -
  have c: "createSession sampleJose ''k'' 1500 1500 1500 2 ''alice'' ''staff'' =
      (encrypt sampleJose ''k'' 1500 1500 (aliceFor 86401500), 86401500)"
    by (simp add: createSession_def aliceFor_def)
  show ?thesis
    unfolding c
    by (simp add: decrypt_issued [OF sample_roundTrips(2)]
        decrypt_issued [OF sample_roundTrips(3)] epoch_def)
qed

lemma decrypt_thrown:
  "jwtVerify lib key now text = Inl thrown \<Longrightarrow> decrypt lib key now (Some text) = None"
  by (simp add: decrypt_def Let_def)

lemma decrypt_not_three:
  "length (splitOn CHR ''.'' text) \<noteq> 3 \<Longrightarrow> decrypt lib key now (Some text) = None"
  by (simp add: decrypt_def jwtVerify_def Let_def)

lemma decrypt_mismatch:
  assumes "CHR ''.'' \<notin> set h" "CHR ''.'' \<notin> set b" "CHR ''.'' \<notin> set s"
    and "unb64url lib s \<noteq> Some (hmac lib key (h @ ''.'' @ b))"
  shows "decrypt lib key now (Some (h @ ''.'' @ b @ ''.'' @ s)) = None"
proof -
  have "\<exists>thrown. jwtVerify lib key now (h @ ''.'' @ b @ ''.'' @ s) = Inl thrown"
    unfolding jwtVerify_three [OF assms(1-3)] using assms(4)
    by (auto split: option.splits)
  then show ?thesis by (auto simp: decrypt_thrown)
qed

lemma validateClaims_expired:
  "exp claims = Some e \<Longrightarrow> e \<le> epoch now \<Longrightarrow> \<exists>thrown. validateClaims now claims = Inl thrown"
  by (simp add: validateClaims_def)

lemma decrypt_expired:
  assumes "CHR ''.'' \<notin> set h" "CHR ''.'' \<notin> set b" "CHR ''.'' \<notin> set s"
    and "unb64url lib b = Some json" "claimsOfJson lib json = Some claims"
    and "exp claims = Some e" "e \<le> epoch now"
  shows "decrypt lib key now (Some (h @ ''.'' @ b @ ''.'' @ s)) = None"
proof -
  from validateClaims_expired [OF assms(6,7)] obtain thrown
    where "validateClaims now claims = Inl thrown" ..
  then have "\<exists>thrown. jwtVerify lib key now (h @ ''.'' @ b @ ''.'' @ s) = Inl thrown"
    unfolding jwtVerify_three [OF assms(1-3)] using assms(4,5)
    by (auto split: option.splits)
  then show ?thesis by (auto simp: decrypt_thrown)
qed

text \<open>
  The signature part enters the verification only through the octets it decodes to: two
  signature parts that decode to the same octets give the same result.
\<close>

lemma decrypt_same_signature_octets:
  assumes "CHR ''.'' \<notin> set h" "CHR ''.'' \<notin> set b" "CHR ''.'' \<notin> set s" "CHR ''.'' \<notin> set s'"
    and "unb64url lib s' = unb64url lib s"
  shows "decrypt lib key now (Some (h @ ''.'' @ b @ ''.'' @ s')) =
         decrypt lib key now (Some (h @ ''.'' @ b @ ''.'' @ s))"
  unfolding decrypt_three jwtVerify_three [OF assms(1,2,3)] jwtVerify_three [OF assms(1,2,4)]
  by (simp only: assms(5))

text \<open>
  C5, as amended. \<open>decrypt\<close> is a total function into an option, so it raises nothing,
  and it returns \<open>None\<close> for a missing token (\<open>undefined\<close> or the empty string), for a
  text that is not three parts, for a text whose signature part does not decode to the
  HMAC of its first two parts as they stand, for an elapsed \<open>exp\<close>, and for whatever else
  \<open>jwtVerify\<close> throws: the same value in every case. An altered text decodes to \<open>None\<close>
  when the alteration changes the HMAC of the first two parts or what the signature
  part decodes to.
\<close>

theorem decrypt_fails_soft:
  "decrypt lib key now None = None \<and>
   decrypt lib key now (Some []) = None \<and>
   (length (splitOn CHR ''.'' cookie) \<noteq> 3 \<longrightarrow> decrypt lib key now (Some cookie) = None) \<and>
   (jwtVerify lib key now cookie = Inl thrown \<longrightarrow> decrypt lib key now (Some cookie) = None) \<and>
   (CHR ''.'' \<notin> set h \<and> CHR ''.'' \<notin> set b \<and> CHR ''.'' \<notin> set s \<longrightarrow>
      (unb64url lib s \<noteq> Some (hmac lib key (h @ ''.'' @ b)) \<longrightarrow>
         decrypt lib key now (Some (h @ ''.'' @ b @ ''.'' @ s)) = None) \<and>
      (unb64url lib b = Some json \<and> claimsOfJson lib json = Some claims \<and>
       exp claims = Some e \<and> e \<le> epoch now \<longrightarrow>
         decrypt lib key now (Some (h @ ''.'' @ b @ ''.'' @ s)) = None) \<and>
      (unb64url lib s0 = Some (hmac lib key (h0 @ ''.'' @ b0)) \<longrightarrow>
         (hmac lib key (h @ ''.'' @ b) \<noteq> hmac lib key (h0 @ ''.'' @ b0) \<longrightarrow>
            CHR ''.'' \<notin> set s0 \<longrightarrow>
            decrypt lib key now (Some (h @ ''.'' @ b @ ''.'' @ s0)) = None) \<and>
         (unb64url lib s \<noteq> unb64url lib s0 \<longrightarrow>
            CHR ''.'' \<notin> set h0 \<longrightarrow> CHR ''.'' \<notin> set b0 \<longrightarrow>
            decrypt lib key now (Some (h0 @ ''.'' @ b0 @ ''.'' @ s)) = None)))"
proof (intro conjI impI)
  show "decrypt lib key now None = None" by (simp add: decrypt_def)
  show "decrypt lib key now (Some []) = None" by (simp add: decrypt_def)
next
  assume "length (splitOn CHR ''.'' cookie) \<noteq> 3"
  then show "decrypt lib key now (Some cookie) = None" by (rule decrypt_not_three)
next
  assume "jwtVerify lib key now cookie = Inl thrown"
  then show "decrypt lib key now (Some cookie) = None" by (rule decrypt_thrown)
next
  assume d: "CHR ''.'' \<notin> set h \<and> CHR ''.'' \<notin> set b \<and> CHR ''.'' \<notin> set s"
    and "unb64url lib s \<noteq> Some (hmac lib key (h @ ''.'' @ b))"
  then show "decrypt lib key now (Some (h @ ''.'' @ b @ ''.'' @ s)) = None"
    by (intro decrypt_mismatch) blast+
next
  assume d: "CHR ''.'' \<notin> set h \<and> CHR ''.'' \<notin> set b \<and> CHR ''.'' \<notin> set s"
    and "unb64url lib b = Some json \<and> claimsOfJson lib json = Some claims \<and>
         exp claims = Some e \<and> e \<le> epoch now"
  then show "decrypt lib key now (Some (h @ ''.'' @ b @ ''.'' @ s)) = None"
    using decrypt_expired [of h b s lib json claims e now key] by blast
next
  assume d: "CHR ''.'' \<notin> set h \<and> CHR ''.'' \<notin> set b \<and> CHR ''.'' \<notin> set s"
    and s0: "unb64url lib s0 = Some (hmac lib key (h0 @ ''.'' @ b0))"
    and m: "hmac lib key (h @ ''.'' @ b) \<noteq> hmac lib key (h0 @ ''.'' @ b0)"
    and d0: "CHR ''.'' \<notin> set s0"
  from s0 m have "unb64url lib s0 \<noteq> Some (hmac lib key (h @ ''.'' @ b))" by auto
  with d d0 show "decrypt lib key now (Some (h @ ''.'' @ b @ ''.'' @ s0)) = None"
    by (intro decrypt_mismatch) blast+
next
  assume d: "CHR ''.'' \<notin> set h \<and> CHR ''.'' \<notin> set b \<and> CHR ''.'' \<notin> set s"
    and s0: "unb64url lib s0 = Some (hmac lib key (h0 @ ''.'' @ b0))"
    and m: "unb64url lib s \<noteq> unb64url lib s0"
    and d0: "CHR ''.'' \<notin> set h0" "CHR ''.'' \<notin> set b0"
  from s0 m have "unb64url lib s \<noteq> Some (hmac lib key (h0 @ ''.'' @ b0))" by auto
  with d d0 show "decrypt lib key now (Some (h0 @ ''.'' @ b0 @ ''.'' @ s)) = None"
    by (intro decrypt_mismatch) blast+
qed

text \<open>
  The token that differs from an issued one in its last character only, in the two bits
  of that character that fill no octet of the signature, decodes to the same claims.
\<close>

theorem decrypt_tampered_counterexample:
  "sampleToken = encrypt sampleJose ''k'' 0 0 (aliceFor 86400000) \<and>
   tamperedToken \<noteq> sampleToken \<and> butlast tamperedToken = butlast sampleToken \<and>
   decrypt sampleJose ''k'' 1000 (Some sampleToken) = Some sampleClaims \<and>
   decrypt sampleJose ''k'' 1000 (Some tamperedToken) = Some sampleClaims"
  by code_simp

lemma sample_parts:
  "CHR ''.'' \<notin> set ''eyJhbGciOiJIUzI1NiJ9''" "CHR ''.'' \<notin> set ''AnN0YWZmYACA''"
  "CHR ''.'' \<notin> set ''AnN0YWZmYACB''"
  "CHR ''.'' \<notin> set ''LjU8Q0pRWF9mbXR7gomQl56lrLO6wcjP1t3k6_L5AAc''"
  "CHR ''.'' \<notin> set ''LjU8Q0pRWF9mbXR7gomQl56lrLO6wcjP1t3k6_L5AAg''"
  by simp_all

lemma sample_decoding:
  "unb64url sampleJose ''LjU8Q0pRWF9mbXR7gomQl56lrLO6wcjP1t3k6_L5AAc'' =
     Some (hmac sampleJose ''k'' (''eyJhbGciOiJIUzI1NiJ9'' @ ''.'' @ ''AnN0YWZmYACA''))"
  "unb64url sampleJose ''LjU8Q0pRWF9mbXR7gomQl56lrLO6wcjP1t3k6_L5AAg'' \<noteq>
     unb64url sampleJose ''LjU8Q0pRWF9mbXR7gomQl56lrLO6wcjP1t3k6_L5AAc''"
  "hmac sampleJose ''k'' (''eyJhbGciOiJIUzI1NiJ9'' @ ''.'' @ ''AnN0YWZmYACB'') \<noteq>
     hmac sampleJose ''k'' (''eyJhbGciOiJIUzI1NiJ9'' @ ''.'' @ ''AnN0YWZmYACA'')"
  "unb64url sampleJose ''LjU8Q0pRWF9mbXR7gomQl56lrLO6wcjP1t3k6_L5AAg'' \<noteq>
     Some (hmac sampleJose ''k'' (''eyJhbGciOiJIUzI1NiJ9'' @ ''.'' @ ''AnN0YWZmYACB''))"
  "unb64url sampleJose ''AnN0YWZmYACA'' = Some [2, 115, 116, 97, 102, 102, 96, 0, 128]"
  "claimsOfJson sampleJose [2, 115, 116, 97, 102, 102, 96, 0, 128] = Some sampleClaims"
  "exp sampleClaims = Some 86400" "(86400::int) \<le> epoch 86400000"
  "length (splitOn CHR ''.'' ''a.b'') \<noteq> 3"
  "jwtVerify sampleJose ''k'' 1000 ''a.b'' = Inl JWSInvalid"
  by code_simp+

theorem decrypt_fails_soft_witness:
  "decrypt sampleJose ''k'' 1000
     (Some (''eyJhbGciOiJIUzI1NiJ9'' @ ''.'' @ ''AnN0YWZmYACA'' @ ''.'' @
            ''LjU8Q0pRWF9mbXR7gomQl56lrLO6wcjP1t3k6_L5AAc'')) = Some sampleClaims \<and>
   decrypt sampleJose ''k'' 1000 None = None \<and>
   decrypt sampleJose ''k'' 1000 (Some []) = None \<and>
   length (splitOn CHR ''.'' ''a.b'') \<noteq> 3 \<and>
   jwtVerify sampleJose ''k'' 1000 ''a.b'' = Inl JWSInvalid \<and>
   decrypt sampleJose ''k'' 1000 (Some ''a.b'') = None \<and>
   hmac sampleJose ''k'' (''eyJhbGciOiJIUzI1NiJ9'' @ ''.'' @ ''AnN0YWZmYACB'') \<noteq>
     hmac sampleJose ''k'' (''eyJhbGciOiJIUzI1NiJ9'' @ ''.'' @ ''AnN0YWZmYACA'') \<and>
   decrypt sampleJose ''k'' 1000
     (Some (''eyJhbGciOiJIUzI1NiJ9'' @ ''.'' @ ''AnN0YWZmYACB'' @ ''.'' @
            ''LjU8Q0pRWF9mbXR7gomQl56lrLO6wcjP1t3k6_L5AAc'')) = None \<and>
   unb64url sampleJose ''LjU8Q0pRWF9mbXR7gomQl56lrLO6wcjP1t3k6_L5AAg'' \<noteq>
     unb64url sampleJose ''LjU8Q0pRWF9mbXR7gomQl56lrLO6wcjP1t3k6_L5AAc'' \<and>
   decrypt sampleJose ''k'' 1000
     (Some (''eyJhbGciOiJIUzI1NiJ9'' @ ''.'' @ ''AnN0YWZmYACA'' @ ''.'' @
            ''LjU8Q0pRWF9mbXR7gomQl56lrLO6wcjP1t3k6_L5AAg'')) = None \<and>
   exp sampleClaims = Some 86400 \<and> 86400 \<le> epoch 86400000 \<and>
   decrypt sampleJose ''k'' 86400000
     (Some (''eyJhbGciOiJIUzI1NiJ9'' @ ''.'' @ ''AnN0YWZmYACA'' @ ''.'' @
            ''LjU8Q0pRWF9mbXR7gomQl56lrLO6wcjP1t3k6_L5AAc'')) = None"
proof -
  have g: "decrypt sampleJose ''k'' 1000
     (Some (''eyJhbGciOiJIUzI1NiJ9'' @ ''.'' @ ''AnN0YWZmYACA'' @ ''.'' @
            ''LjU8Q0pRWF9mbXR7gomQl56lrLO6wcjP1t3k6_L5AAc'')) = Some sampleClaims"
    by code_simp
  note a = decrypt_fails_soft [where lib = sampleJose and key = "''k''" and now = 1000
      and cookie = "''a.b''" and thrown = JWSInvalid
      and h = "''eyJhbGciOiJIUzI1NiJ9''" and b = "''AnN0YWZmYACB''"
      and s = "''LjU8Q0pRWF9mbXR7gomQl56lrLO6wcjP1t3k6_L5AAg''"
      and ?h0.0 = "''eyJhbGciOiJIUzI1NiJ9''" and ?b0.0 = "''AnN0YWZmYACA''"
      and ?s0.0 = "''LjU8Q0pRWF9mbXR7gomQl56lrLO6wcjP1t3k6_L5AAc''"]
  note b = decrypt_fails_soft [where lib = sampleJose and key = "''k''" and now = 86400000
      and h = "''eyJhbGciOiJIUzI1NiJ9''" and b = "''AnN0YWZmYACA''"
      and s = "''LjU8Q0pRWF9mbXR7gomQl56lrLO6wcjP1t3k6_L5AAc''"
      and json = "[2, 115, 116, 97, 102, 102, 96, 0, 128]" and claims = sampleClaims
      and e = 86400]
  from a sample_parts sample_decoding have
    "decrypt sampleJose ''k'' 1000 None = None"
    "decrypt sampleJose ''k'' 1000 (Some []) = None"
    "decrypt sampleJose ''k'' 1000 (Some ''a.b'') = None"
    "decrypt sampleJose ''k'' 1000
       (Some (''eyJhbGciOiJIUzI1NiJ9'' @ ''.'' @ ''AnN0YWZmYACB'' @ ''.'' @
              ''LjU8Q0pRWF9mbXR7gomQl56lrLO6wcjP1t3k6_L5AAc'')) = None"
    "decrypt sampleJose ''k'' 1000
       (Some (''eyJhbGciOiJIUzI1NiJ9'' @ ''.'' @ ''AnN0YWZmYACA'' @ ''.'' @
              ''LjU8Q0pRWF9mbXR7gomQl56lrLO6wcjP1t3k6_L5AAg'')) = None"
    by blast+
  moreover from b sample_parts sample_decoding have
    "decrypt sampleJose ''k'' 86400000
       (Some (''eyJhbGciOiJIUzI1NiJ9'' @ ''.'' @ ''AnN0YWZmYACA'' @ ''.'' @
              ''LjU8Q0pRWF9mbXR7gomQl56lrLO6wcjP1t3k6_L5AAc'')) = None"
    by blast
  ultimately show ?thesis using g sample_decoding by blast
qed

subsection \<open>The claims about the tasks routes\<close>

lemma find_by_id:
  "distinct (map f xs) \<Longrightarrow> x \<in> set xs \<Longrightarrow> List.find (\<lambda>y. f y = f x) xs = Some x"
  by (rule find_distinct_key)

lemma find_absent: "\<forall>x\<in>set xs. f x \<noteq> k \<Longrightarrow> List.find (\<lambda>y. f y = k) xs = None"
  by (simp add: find_None_set)

lemma map_update_one:
  "distinct (map f xs) \<Longrightarrow> x \<in> set xs \<Longrightarrow>
   map (\<lambda>y. if f y = f x then g y else y) xs = map (\<lambda>y. if y = x then g x else y) xs"
  by (rule map_cong) (auto simp: distinct_map inj_on_def)

text \<open>
  C7. With a session and a numeric id: when no task has the id, update and delete answer
  NotFound whoever the caller is; when the task exists, a caller who is not admin and not
  its owner gets Unauthorized; in both cases the store is as it was. An admin's update
  and delete of any existing task succeed and change the store.
\<close>

theorem task_mutation_guard:
  assumes ids: "distinct (map task_id (tasks st))" and num: "parseInt id' = Some taskId"
  shows "((\<forall>t\<in>set (tasks st). task_id t \<noteq> taskId) \<longrightarrow>
            task_PUT parseInt (Some s) id' body st = (Inl (HttpError 404 ''Task not found''), st) \<and>
            task_DELETE parseInt (Some s) id' st = (Inl (HttpError 404 ''Task not found''), st)) \<and>
         (\<forall>t. t \<in> set (tasks st) \<and> task_id t = taskId \<and>
              role s \<noteq> ''admin'' \<and> task_userId t \<noteq> userId s \<longrightarrow>
            task_PUT parseInt (Some s) id' body st = (Inl Unauthorized, st) \<and>
            task_DELETE parseInt (Some s) id' st = (Inl Unauthorized, st)) \<and>
         (\<forall>t. t \<in> set (tasks st) \<and> task_id t = taskId \<and> role s = ''admin'' \<longrightarrow>
            task_PUT parseInt (Some s) id' body st =
              (Inr (200, t\<lparr>taskName := orElse (new_taskName body) (taskName t),
                            plan := orElse (new_plan body) (plan t),
                            result := orElse (new_result body) (result t)\<rparr>),
               st\<lparr>tasks := map (\<lambda>x. if x = t
                                      then t\<lparr>taskName := orElse (new_taskName body) (taskName t),
                                             plan := orElse (new_plan body) (plan t),
                                             result := orElse (new_result body) (result t)\<rparr>
                                      else x) (tasks st)\<rparr>) \<and>
            task_DELETE parseInt (Some s) id' st =
              (Inr (200, True), st\<lparr>tasks := remove1 t (tasks st)\<rparr>))"
proof (intro conjI allI impI)
  assume a: "\<forall>t\<in>set (tasks st). task_id t \<noteq> taskId"
  from find_absent [OF a] num
  show "task_PUT parseInt (Some s) id' body st = (Inl (HttpError 404 ''Task not found''), st)"
    by (simp add: task_PUT_def)
  from find_absent [OF a] num
  show "task_DELETE parseInt (Some s) id' st = (Inl (HttpError 404 ''Task not found''), st)"
    by (simp add: task_DELETE_def)
next
  fix t
  assume a: "t \<in> set (tasks st) \<and> task_id t = taskId \<and>
             role s \<noteq> ''admin'' \<and> task_userId t \<noteq> userId s"
  with find_by_id [OF ids, of t] have f: "List.find (\<lambda>y. task_id y = taskId) (tasks st) = Some t"
    by auto
  from f num a show "task_PUT parseInt (Some s) id' body st = (Inl Unauthorized, st)"
    by (simp add: task_PUT_def)
  from f num a show "task_DELETE parseInt (Some s) id' st = (Inl Unauthorized, st)"
    by (simp add: task_DELETE_def)
next
  fix t
  assume a: "t \<in> set (tasks st) \<and> task_id t = taskId \<and> role s = ''admin''"
  with find_by_id [OF ids, of t] have f: "List.find (\<lambda>y. task_id y = taskId) (tasks st) = Some t"
    by auto
  from a have m: "t \<in> set (tasks st)" and adm: "role s = ''admin''" by simp_all
  from a f have f': "List.find (\<lambda>y. task_id y = task_id t) (tasks st) = Some t" by simp
  from a num have num': "parseInt id' = Some (task_id t)" by simp
  let ?data = "\<lambda>x. x\<lparr>taskName := orElse (new_taskName body) (taskName t),
                        plan := orElse (new_plan body) (plan t),
                        result := orElse (new_result body) (result t)\<rparr>"
  have e: "map (\<lambda>y. if task_id y = task_id t then ?data y else y) (tasks st) =
           map (\<lambda>y. if y = t then ?data t else y) (tasks st)"
    by (rule map_update_one [OF ids m])
  from f' num' adm have "task_PUT parseInt (Some s) id' body st =
      (Inr (200, ?data t),
       st\<lparr>tasks := map (\<lambda>y. if task_id y = task_id t then ?data y else y) (tasks st)\<rparr>)"
    by (simp add: task_PUT_def Let_def)
  then show "task_PUT parseInt (Some s) id' body st =
              (Inr (200, t\<lparr>taskName := orElse (new_taskName body) (taskName t),
                            plan := orElse (new_plan body) (plan t),
                            result := orElse (new_result body) (result t)\<rparr>),
               st\<lparr>tasks := map (\<lambda>x. if x = t
                                      then t\<lparr>taskName := orElse (new_taskName body) (taskName t),
                                             plan := orElse (new_plan body) (plan t),
                                             result := orElse (new_result body) (result t)\<rparr>
                                      else x) (tasks st)\<rparr>)"
    unfolding e .
  from f' num' adm filter_distinct_remove1 [OF ids m]
  show "task_DELETE parseInt (Some s) id' st =
              (Inr (200, True), st\<lparr>tasks := remove1 t (tasks st)\<rparr>)"
    by (simp add: task_DELETE_def)
qed

lemma sample_task_ids: "distinct (map task_id (tasks sampleStore))"
  by (simp add: sampleStore_def writeCopy_def buyAds_def)

theorem task_mutation_guard_witness:
  "distinct (map task_id (tasks sampleStore)) \<and>
   sampleInts ''7'' = Some 7 \<and> 7 \<notin> task_id ` set (tasks sampleStore) \<and>
   task_PUT sampleInts (Some alice) ''7'' markDone sampleStore =
     (Inl (HttpError 404 ''Task not found''), sampleStore) \<and>
   task_DELETE sampleInts (Some alice) ''7'' sampleStore =
     (Inl (HttpError 404 ''Task not found''), sampleStore) \<and>
   sampleInts ''2'' = Some 2 \<and> buyAds \<in> set (tasks sampleStore) \<and> task_id buyAds = 2 \<and>
   role alice \<noteq> ''admin'' \<and> task_userId buyAds \<noteq> userId alice \<and>
   task_PUT sampleInts (Some alice) ''2'' markDone sampleStore = (Inl Unauthorized, sampleStore) \<and>
   task_DELETE sampleInts (Some alice) ''2'' sampleStore = (Inl Unauthorized, sampleStore) \<and>
   role root = ''admin'' \<and>
   task_PUT sampleInts (Some root) ''2'' markDone sampleStore =
     (Inr (200, buyAds\<lparr>result := ''done''\<rparr>),
      sampleStore\<lparr>tasks := [writeCopy, buyAds\<lparr>result := ''done''\<rparr>]\<rparr>) \<and>
   task_DELETE sampleInts (Some root) ''2'' sampleStore =
     (Inr (200, True), sampleStore\<lparr>tasks := [writeCopy]\<rparr>)"
proof -
  have n7: "sampleInts ''7'' = Some 7" and n2: "sampleInts ''2'' = Some 2"
    by (simp_all add: sampleInts_def)
  have no7: "\<forall>t\<in>set (tasks sampleStore). task_id t \<noteq> 7"
    by (simp add: sampleStore_def writeCopy_def buyAds_def)
  have b: "buyAds \<in> set (tasks sampleStore)" "task_id buyAds = 2"
    "task_userId buyAds \<noteq> userId alice"
    by (simp_all add: sampleStore_def buyAds_def alice_def)
  have r: "role alice \<noteq> ''admin''" "role root = ''admin''"
    by (simp_all add: alice_def root_def)
  have neq: "writeCopy \<noteq> buyAds" by (simp add: writeCopy_def buyAds_def)
  have upd: "map (\<lambda>x. if x = buyAds then buyAds\<lparr>result := ''done''\<rparr> else x) (tasks sampleStore) =
      [writeCopy, buyAds\<lparr>result := ''done''\<rparr>]"
    using neq by (simp add: sampleStore_def)
  have upd1: "buyAds\<lparr>taskName := orElse (new_taskName markDone) (taskName buyAds),
                      plan := orElse (new_plan markDone) (plan buyAds),
                      result := orElse (new_result markDone) (result buyAds)\<rparr> =
              buyAds\<lparr>result := ''done''\<rparr>"
    by (simp add: markDone_def orElse_def)
  have del: "remove1 buyAds (tasks sampleStore) = [writeCopy]"
    using neq by (simp add: sampleStore_def)
  note g7 = task_mutation_guard [where parseInt = sampleInts and s = alice and body = markDone,
      OF sample_task_ids n7]
  note g2 = task_mutation_guard [where parseInt = sampleInts and s = alice and body = markDone,
      OF sample_task_ids n2]
  note g2r = task_mutation_guard [where parseInt = sampleInts and s = root and body = markDone,
      OF sample_task_ids n2]
  have c1: "task_PUT sampleInts (Some alice) ''7'' markDone sampleStore =
     (Inl (HttpError 404 ''Task not found''), sampleStore) \<and>
   task_DELETE sampleInts (Some alice) ''7'' sampleStore =
     (Inl (HttpError 404 ''Task not found''), sampleStore)"
    by (rule g7 [THEN conjunct1, THEN mp, OF no7])
  have c2: "task_PUT sampleInts (Some alice) ''2'' markDone sampleStore = (Inl Unauthorized, sampleStore) \<and>
   task_DELETE sampleInts (Some alice) ''2'' sampleStore = (Inl Unauthorized, sampleStore)"
    by (rule g2 [THEN conjunct2, THEN conjunct1, THEN spec, of buyAds, THEN mp])
       (simp add: b r)
  have "task_PUT sampleInts (Some root) ''2'' markDone sampleStore =
     (Inr (200, buyAds\<lparr>taskName := orElse (new_taskName markDone) (taskName buyAds),
                         plan := orElse (new_plan markDone) (plan buyAds),
                         result := orElse (new_result markDone) (result buyAds)\<rparr>),
      sampleStore\<lparr>tasks := map (\<lambda>x. if x = buyAds
                       then buyAds\<lparr>taskName := orElse (new_taskName markDone) (taskName buyAds),
                                   plan := orElse (new_plan markDone) (plan buyAds),
                                   result := orElse (new_result markDone) (result buyAds)\<rparr>
                       else x) (tasks sampleStore)\<rparr>) \<and>
   task_DELETE sampleInts (Some root) ''2'' sampleStore =
     (Inr (200, True), sampleStore\<lparr>tasks := remove1 buyAds (tasks sampleStore)\<rparr>)"
    by (rule g2r [THEN conjunct2, THEN conjunct2, THEN spec, of buyAds, THEN mp])
       (simp add: b r)
  then have c3: "task_PUT sampleInts (Some root) ''2'' markDone sampleStore =
     (Inr (200, buyAds\<lparr>result := ''done''\<rparr>),
      sampleStore\<lparr>tasks := [writeCopy, buyAds\<lparr>result := ''done''\<rparr>]\<rparr>) \<and>
   task_DELETE sampleInts (Some root) ''2'' sampleStore =
     (Inr (200, True), sampleStore\<lparr>tasks := [writeCopy]\<rparr>)"
    unfolding upd1 del upd .
  have no7': "7 \<notin> task_id ` set (tasks sampleStore)" using no7 by auto
  show ?thesis
    by (intro conjI sample_task_ids n7 n2 no7' b r c1 [THEN conjunct1] c1 [THEN conjunct2]
        c2 [THEN conjunct1] c2 [THEN conjunct2] c3 [THEN conjunct1] c3 [THEN conjunct2])
qed

lemma task_PUT_success_cases:
  assumes "task_PUT parseInt session id' body st = (Inr (c, t'), st')"
  obtains s t where "session = Some s" "parseInt id' = Some (task_id t)"
    "List.find (\<lambda>y. task_id y = task_id t) (tasks st) = Some t"
    "role s = ''admin'' \<or> task_userId t = userId s"
proof -
  from assms obtain s where s: "session = Some s"
    by (cases session) (simp_all add: task_PUT_def)
  from assms s obtain k where k: "parseInt id' = Some k"
    by (cases "parseInt id'") (simp_all add: task_PUT_def)
  from assms s k obtain t where t: "List.find (\<lambda>y. task_id y = k) (tasks st) = Some t"
    by (cases "List.find (\<lambda>y. task_id y = k) (tasks st)") (simp_all add: task_PUT_def)
  from find_in_set [OF t] have kt: "k = task_id t" by simp
  from assms s k t have "role s = ''admin'' \<or> task_userId t = userId s"
    by (auto simp: task_PUT_def split: if_splits)
  with s k t kt that show thesis by blast
qed

text \<open>
  C8. A task update that succeeds gives \<open>taskName\<close>, \<open>plan\<close> and \<open>result\<close> the supplied
  value where one is supplied and leaves each as it was where none is; id, date, owner
  and creation time are as before, and so is every other row of every table.
\<close>

theorem task_update_partial:
  assumes ids: "distinct (map task_id (tasks st))"
    and ok: "task_PUT parseInt session id' body st = (Inr (c, t'), st')"
  shows "\<exists>t\<in>set (tasks st). parseInt id' = Some (task_id t) \<and>
           taskName t' = (case new_taskName body of None \<Rightarrow> taskName t | Some v \<Rightarrow> v) \<and>
           plan t' = (case new_plan body of None \<Rightarrow> plan t | Some v \<Rightarrow> v) \<and>
           result t' = (case new_result body of None \<Rightarrow> result t | Some v \<Rightarrow> v) \<and>
           task_id t' = task_id t \<and> task_date t' = task_date t \<and>
           task_userId t' = task_userId t \<and> task_createdAt t' = task_createdAt t \<and>
           tasks st' = map (\<lambda>x. if x = t then t' else x) (tasks st) \<and>
           reports st' = reports st \<and> reportSeq st' = reportSeq st \<and> users st' = users st"
proof -
  from ok obtain s t where s: "session = Some s" and k: "parseInt id' = Some (task_id t)"
    and f: "List.find (\<lambda>y. task_id y = task_id t) (tasks st) = Some t"
    and auth: "role s = ''admin'' \<or> task_userId t = userId s"
    by (rule task_PUT_success_cases)
  from find_in_set [OF f] have m: "t \<in> set (tasks st)" by simp
  let ?data = "\<lambda>x. x\<lparr>taskName := orElse (new_taskName body) (taskName t),
                        plan := orElse (new_plan body) (plan t),
                        result := orElse (new_result body) (result t)\<rparr>"
  from s k f auth have "task_PUT parseInt session id' body st =
      (Inr (200, ?data t),
       st\<lparr>tasks := map (\<lambda>y. if task_id y = task_id t then ?data y else y) (tasks st)\<rparr>)"
    by (auto simp: task_PUT_def Let_def)
  with ok have t': "t' = ?data t"
    and st': "st' = st\<lparr>tasks := map (\<lambda>y. if task_id y = task_id t then ?data y else y) (tasks st)\<rparr>"
    by simp_all
  have e: "map (\<lambda>y. if task_id y = task_id t then ?data y else y) (tasks st) =
           map (\<lambda>y. if y = t then ?data t else y) (tasks st)"
    by (rule map_update_one [OF ids m])
  have "tasks st' = map (\<lambda>x. if x = t then t' else x) (tasks st)"
    unfolding st' t' using e by simp
  moreover have "taskName t' = (case new_taskName body of None \<Rightarrow> taskName t | Some v \<Rightarrow> v)"
    "plan t' = (case new_plan body of None \<Rightarrow> plan t | Some v \<Rightarrow> v)"
    "result t' = (case new_result body of None \<Rightarrow> result t | Some v \<Rightarrow> v)"
    "task_id t' = task_id t" "task_date t' = task_date t"
    "task_userId t' = task_userId t" "task_createdAt t' = task_createdAt t"
    by (simp_all add: t' orElse_def)
  moreover have "reports st' = reports st" "reportSeq st' = reportSeq st" "users st' = users st"
    by (simp_all add: st')
  ultimately show ?thesis using m k by blast
qed

theorem task_update_partial_witness:
  "distinct (map task_id (tasks sampleStore)) \<and>
   task_PUT sampleInts (Some bob) ''2'' markDone sampleStore =
     (Inr (200, buyAds\<lparr>result := ''done''\<rparr>),
      sampleStore\<lparr>tasks := [writeCopy, buyAds\<lparr>result := ''done''\<rparr>]\<rparr>) \<and>
   (\<exists>t\<in>set (tasks sampleStore). sampleInts ''2'' = Some (task_id t) \<and>
      taskName (buyAds\<lparr>result := ''done''\<rparr>) = taskName t \<and>
      plan (buyAds\<lparr>result := ''done''\<rparr>) = plan t \<and>
      result (buyAds\<lparr>result := ''done''\<rparr>) = ''done'' \<and>
      task_date (buyAds\<lparr>result := ''done''\<rparr>) = task_date t \<and>
      task_userId (buyAds\<lparr>result := ''done''\<rparr>) = task_userId t)"
proof -
  have ok: "task_PUT sampleInts (Some bob) ''2'' markDone sampleStore =
     (Inr (200, buyAds\<lparr>result := ''done''\<rparr>),
      sampleStore\<lparr>tasks := [writeCopy, buyAds\<lparr>result := ''done''\<rparr>]\<rparr>)"
    by (simp add: task_PUT_def sampleInts_def sampleStore_def writeCopy_def buyAds_def bob_def
        markDone_def orElse_def Let_def)
  from task_update_partial [OF sample_task_ids ok]
  have "\<exists>t\<in>set (tasks sampleStore). sampleInts ''2'' = Some (task_id t) \<and>
      taskName (buyAds\<lparr>result := ''done''\<rparr>) = taskName t \<and>
      plan (buyAds\<lparr>result := ''done''\<rparr>) = plan t \<and>
      result (buyAds\<lparr>result := ''done''\<rparr>) = ''done'' \<and>
      task_date (buyAds\<lparr>result := ''done''\<rparr>) = task_date t \<and>
      task_userId (buyAds\<lparr>result := ''done''\<rparr>) = task_userId t"
    by (auto simp: markDone_def)
  with sample_task_ids ok show ?thesis by blast
qed

lemma task_findMany_own:
  assumes "task_findMany \<lparr>wc_userId = Is u, wc_date = byDate\<rparr> st = Some found"
  shows "\<forall>(t, usr)\<in>set found. task_userId t = u \<and> t \<in> set (tasks st)"
  using assms
  by (auto simp: task_findMany_def includeUser_def matches_def split: if_splits)

text \<open>
  C9. For a session whose role is \<open>staff\<close>, the task list is the same whatever the
  \<open>userId\<close> query parameter is (absent, the caller's id, another user's id, or not a
  number), and every task it returns is one of the store's tasks owned by the caller.
\<close>

theorem staff_list_ignores_userId:
  assumes "role s = ''staff''"
  shows "tasks_GET tz parseInt newDate (Some s) dateStr u1 st =
           tasks_GET tz parseInt newDate (Some s) dateStr u2 st \<and>
         (\<forall>c found. tasks_GET tz parseInt newDate (Some s) dateStr u1 st = Inr (c, found) \<longrightarrow>
            (\<forall>(t, usr)\<in>set found. task_userId t = userId s \<and> t \<in> set (tasks st)))"
proof -
  have na: "role s \<noteq> ''admin''" using assms by simp
  have eq: "\<And>u. tasks_GET tz parseInt newDate (Some s) dateStr u st =
      (case task_findMany
              \<lparr>wc_userId = Is (userId s),
                 wc_date = (if \<not> falsy dateStr
                    then ofParsed (map_option (\<lambda>date. (date, nextDate tz date)) (newDate (the dateStr)))
                    else Unset)\<rparr> st of
         None \<Rightarrow> Inl (HttpError 500 ''Internal server error'')
       | Some found \<Rightarrow> Inr (200, found))"
    using na assms by (simp add: tasks_GET_def Let_def)
  show ?thesis
  proof (intro conjI allI impI)
    show "tasks_GET tz parseInt newDate (Some s) dateStr u1 st =
           tasks_GET tz parseInt newDate (Some s) dateStr u2 st"
      by (simp only: eq)
  next
    fix c found
    assume "tasks_GET tz parseInt newDate (Some s) dateStr u1 st = Inr (c, found)"
    then obtain byDate where
      "task_findMany \<lparr>wc_userId = Is (userId s), wc_date = byDate\<rparr> st = Some found"
      unfolding eq by (auto split: option.splits)
    then show "\<forall>(t, usr)\<in>set found. task_userId t = userId s \<and> t \<in> set (tasks st)"
      by (rule task_findMany_own)
  qed
qed

theorem staff_list_ignores_userId_witness:
  "role alice = ''staff'' \<and>
   tasks_GET newYork2024 sampleInts sampleDates (Some alice) (Some ''2024-06-01'') (Some ''3'')
     sampleStore =
     tasks_GET newYork2024 sampleInts sampleDates (Some alice) (Some ''2024-06-01'') None
       sampleStore \<and>
   tasks_GET newYork2024 sampleInts sampleDates (Some alice) (Some ''2024-06-01'') (Some ''3'')
     sampleStore =
     Inr (200, [(writeCopy, Some (2, ''alice'', Some ''media_buyer''))]) \<and>
   task_userId writeCopy = userId alice \<and> writeCopy \<in> set (tasks sampleStore)"
proof -
  have r: "role alice = ''staff''" by (simp add: alice_def)
  have n: "nextDate newYork2024 1717200000000 = 1717286400000"
    by (simp add: nextDate_def Let_def newYork_local Day_def TimeWithinDay_def MakeDate_def
        dayMs_def)
  have v: "tasks_GET newYork2024 sampleInts sampleDates (Some alice) (Some ''2024-06-01'')
      (Some ''3'') sampleStore =
      Inr (200, [(writeCopy, Some (2, ''alice'', Some ''media_buyer''))])"
    by (simp add: tasks_GET_def Let_def alice_def falsy_def sampleDates_def ofParsed_def n
        task_findMany_def matches_def includeUser_def sampleStore_def sampleUsers_def
        writeCopy_def buyAds_def)
  note g = staff_list_ignores_userId [where tz = newYork2024 and parseInt = sampleInts
      and newDate = sampleDates
      and dateStr = "Some ''2024-06-01''" and ?u1.0 = "Some ''3''" and ?u2.0 = None
      and st = sampleStore, OF r]
  from g [THEN conjunct2, THEN spec, THEN spec, THEN mp, OF v]
  have "task_userId writeCopy = userId alice" "writeCopy \<in> set (tasks sampleStore)"
    by simp_all
  with g [THEN conjunct1] r v show ?thesis by (intro conjI)
qed


subsection \<open>The claim about the staff routes\<close>

lemma staff_PUT_users:
  "users (snd (staff_PUT parseInt hash session id' body st)) = users st \<or>
   (\<exists>staffId e. List.find (\<lambda>u. user_id u = staffId) (users st) = Some e \<and>
      user_role e = ''staff'' \<and>
      users (snd (staff_PUT parseInt hash session id' body st)) =
        map (\<lambda>u. if user_id u = staffId
                 then (if falsy (new_password body) then u
                       else u\<lparr>password := hash (the (new_password body))\<rparr>)
                      \<lparr>user_username := the (new_username body),
                       position := new_position body\<rparr>
                 else u) (users st))"
proof (cases "session = None \<or> role (the session) \<noteq> ''admin''")
  case True
  then show ?thesis by (simp add: staff_PUT_def)
next
  case adm: False
  show ?thesis
  proof (cases "falsy (new_username body) \<or> falsy (new_position body)")
    case True
    with adm show ?thesis by (simp add: staff_PUT_def)
  next
    case ok: False
    show ?thesis
    proof (cases "parseInt id'")
      case None
      with adm ok show ?thesis by (simp add: staff_PUT_def)
    next
      case (Some staffId)
      show ?thesis
      proof (cases "List.find (\<lambda>u. user_id u = staffId) (users st)")
        case None
        with adm ok Some show ?thesis by (simp add: staff_PUT_def)
      next
        case found: (Some e)
        show ?thesis
        proof (cases "user_role e = ''staff''")
          case False
          with adm ok Some found show ?thesis by (simp add: staff_PUT_def)
        next
          case staff: True
          show ?thesis
          proof (cases "List.find (\<lambda>u. user_username u = the (new_username body) \<and>
                                           user_id u \<noteq> staffId) (users st)")
            case (Some taken)
            with adm ok \<open>parseInt id' = Some staffId\<close> found staff show ?thesis
              by (simp add: staff_PUT_def)
          next
            case None
            with adm ok \<open>parseInt id' = Some staffId\<close> found staff
            have "users (snd (staff_PUT parseInt hash session id' body st)) =
                map (\<lambda>u. if user_id u = staffId
                         then (if falsy (new_password body) then u
                               else u\<lparr>password := hash (the (new_password body))\<rparr>)
                              \<lparr>user_username := the (new_username body),
                               position := new_position body\<rparr>
                         else u) (users st)"
              by (auto simp: staff_PUT_def Let_def)
            with found staff show ?thesis by blast
          qed
        qed
      qed
    qed
  qed
qed

lemma staff_PUT_keeps_other_roles:
  assumes ids: "distinct (map user_id (users st))"
    and v: "v \<in> set (users st)" "user_role v \<noteq> ''staff''"
  shows "v \<in> set (users (snd (staff_PUT parseInt hash session id' body st)))"
proof -
  from staff_PUT_users [of parseInt hash session id' body st]
  show ?thesis
  proof (elim disjE exE conjE)
    assume "users (snd (staff_PUT parseInt hash session id' body st)) = users st"
    with v(1) show ?thesis by simp
  next
    fix staffId e
    let ?f = "\<lambda>u. (if falsy (new_password body) then u
                    else u\<lparr>password := hash (the (new_password body))\<rparr>)
                   \<lparr>user_username := the (new_username body), position := new_position body\<rparr>"
    assume f: "List.find (\<lambda>u. user_id u = staffId) (users st) = Some e"
      and r: "user_role e = ''staff''"
      and u: "users (snd (staff_PUT parseInt hash session id' body st)) =
                map (\<lambda>u. if user_id u = staffId then ?f u else u) (users st)"
    from find_in_set [OF f] have e: "e \<in> set (users st)" "user_id e = staffId" by simp_all
    from r v(2) have "v \<noteq> e" by auto
    moreover from ids have "inj_on user_id (set (users st))" by (simp add: distinct_map)
    ultimately have "user_id v \<noteq> user_id e" using v(1) e(1) by (simp add: inj_on_def) blast
    with e(2) have "user_id v \<noteq> staffId" by simp
    then have "v = (\<lambda>u. if user_id u = staffId then ?f u else u) v" by simp
    with v(1) have "v \<in> (\<lambda>u. if user_id u = staffId then ?f u else u) ` set (users st)"
      by (rule image_eqI [rotated])
    then show ?thesis unfolding u by simp
  qed
qed

lemma staff_DELETE_only_staff:
  assumes "snd (staff_DELETE parseInt user_delete session id' st) \<noteq> st"
  shows "\<exists>v\<in>set (users st). parseInt id' = Some (user_id v) \<and> user_role v = ''staff''"
proof -
  from assms obtain staffId e where n: "parseInt id' = Some staffId"
    and f: "List.find (\<lambda>u. user_id u = staffId) (users st) = Some e"
    and r: "user_role e = ''staff''"
    by (auto simp: staff_DELETE_def split: if_splits option.splits)
  from find_in_set [OF f] n r show ?thesis by auto
qed

text \<open>
  C10, as amended. For an admin session and a target that is a user whose role is not
  \<open>staff\<close>: the staff delete fails with NotFound; the staff update fails with NotFound
  when the body supplies a username and a position, and with the validation error when
  it lacks one of them; in every case the store is as it was. Whatever the request, the
  staff update leaves every user row whose role is not \<open>staff\<close> in place, and the staff
  delete changes the store only when its target is a staff user.
\<close>

theorem staff_endpoints_spare_other_roles:
  assumes adm: "role s = ''admin''" and num: "parseInt id' = Some staffId"
    and ids: "distinct (map user_id (users st))"
    and target: "u \<in> set (users st)" "user_id u = staffId" "user_role u \<noteq> ''staff''"
  shows "staff_DELETE parseInt user_delete (Some s) id' st =
           (Inl (HttpError 404 ''Staff user not found''), st) \<and>
         staff_PUT parseInt hash (Some s) id' body st =
           (if falsy (new_username body) \<or> falsy (new_position body)
            then (Inl (HttpError 400 ''Username and position are required''), st)
            else (Inl (HttpError 404 ''Staff user not found''), st)) \<and>
         (\<forall>session i b. \<forall>v\<in>set (users st). user_role v \<noteq> ''staff'' \<longrightarrow>
            v \<in> set (users (snd (staff_PUT parseInt hash session i b st)))) \<and>
         (\<forall>session i. snd (staff_DELETE parseInt user_delete session i st) \<noteq> st \<longrightarrow>
            (\<exists>v\<in>set (users st). parseInt i = Some (user_id v) \<and> user_role v = ''staff''))"
proof (intro conjI allI ballI impI)
  from find_by_id [OF ids target(1)] target(2)
  have f: "List.find (\<lambda>y. user_id y = staffId) (users st) = Some u" by simp
  from adm num f target(3)
  show "staff_DELETE parseInt user_delete (Some s) id' st =
          (Inl (HttpError 404 ''Staff user not found''), st)"
    by (simp add: staff_DELETE_def)
  from adm num f target(3)
  show "staff_PUT parseInt hash (Some s) id' body st =
          (if falsy (new_username body) \<or> falsy (new_position body)
           then (Inl (HttpError 400 ''Username and position are required''), st)
           else (Inl (HttpError 404 ''Staff user not found''), st))"
    by (simp add: staff_PUT_def)
next
  fix session i b v
  assume "v \<in> set (users st)" "user_role v \<noteq> ''staff''"
  then show "v \<in> set (users (snd (staff_PUT parseInt hash session i b st)))"
    by (rule staff_PUT_keeps_other_roles [OF ids])
next
  fix session i
  assume "snd (staff_DELETE parseInt user_delete session i st) \<noteq> st"
  then show "\<exists>v\<in>set (users st). parseInt i = Some (user_id v) \<and> user_role v = ''staff''"
    by (rule staff_DELETE_only_staff)
qed

lemma sample_root_target:
  "role root = ''admin''" "sampleInts ''1'' = Some 1" "distinct (map user_id (users sampleStore))"
  "hd sampleUsers \<in> set (users sampleStore)" "user_id (hd sampleUsers) = 1"
  "user_role (hd sampleUsers) \<noteq> ''staff''"
  by (simp_all add: root_def sampleInts_def sampleStore_def sampleUsers_def)

theorem staff_endpoints_spare_other_roles_witness:
  "role root = ''admin'' \<and> sampleInts ''1'' = Some 1 \<and>
   distinct (map user_id (users sampleStore)) \<and> hd sampleUsers \<in> set (users sampleStore) \<and>
   user_id (hd sampleUsers) = 1 \<and> user_role (hd sampleUsers) \<noteq> ''staff'' \<and>
   staff_DELETE sampleInts sampleUserDelete (Some root) ''1'' sampleStore =
     (Inl (HttpError 404 ''Staff user not found''), sampleStore) \<and>
   staff_PUT sampleInts sampleHash (Some root) ''1'' renameRoot sampleStore =
     (Inl (HttpError 404 ''Staff user not found''), sampleStore)"
proof -
  note g = staff_endpoints_spare_other_roles [where parseInt = sampleInts and body = renameRoot
      and hash = sampleHash and user_delete = sampleUserDelete, OF sample_root_target]
  have "\<not> (falsy (new_username renameRoot) \<or> falsy (new_position renameRoot))"
    by (simp add: renameRoot_def falsy_def)
  with g [THEN conjunct2, THEN conjunct1]
  have "staff_PUT sampleInts sampleHash (Some root) ''1'' renameRoot sampleStore =
     (Inl (HttpError 404 ''Staff user not found''), sampleStore)" by simp
  with g [THEN conjunct1] sample_root_target show ?thesis by (intro conjI)
qed

text \<open>
  An admin's update of the admin account with a body that lacks the position is answered
  with the validation error, not with NotFound.
\<close>

theorem staff_endpoints_counterexample:
  "role root = ''admin'' \<and> sampleInts ''1'' = Some 1 \<and>
   hd sampleUsers \<in> set (users sampleStore) \<and> user_id (hd sampleUsers) = 1 \<and>
   user_role (hd sampleUsers) \<noteq> ''staff'' \<and>
   staff_PUT sampleInts sampleHash (Some root) ''1'' noPosition sampleStore \<noteq>
     (Inl (HttpError 404 ''Staff user not found''), sampleStore)"
  using sample_root_target
  by (simp add: staff_PUT_def noPosition_def falsy_def)

end
